theory Spec2Isabelle
  imports Complex_Main
begin

section \<open>Values, rows and the stored state\<close>

text \<open>
  The handlers of \<^verbatim>\<open>jobService.ts\<close> and the functions of \<^verbatim>\<open>userRepository\<close> move
  JavaScript objects between the request, the query builder and the response. One datatype
  of values serves for request bodies, table cells and response bodies. Numbers are the
  integers the code handles (ids, counts, page numbers); \<open>JDate\<close> is a \<^verbatim>\<open>Date\<close> as its
  timestamp. Strings are lists of 8-bit code units.
\<close>

datatype json =
    JNull
  | JBool bool
  | JNum int
  | JStr string
  | JDate nat
  | JArr "json list"
  | JObj "(string \<times> json) list"

text \<open>
  A table row is an object: an association list from column names to values. A column a
  row does not list is NULL (\<^verbatim>\<open>undefined\<close> when read from JavaScript).
\<close>

type_synonym row = "(string \<times> json) list"

definition get :: "row \<Rightarrow> string \<Rightarrow> json option" where
  "get r c = map_of r c"

text \<open>Assigning one column: the value is replaced in place, or the column is added.\<close>

fun assign :: "string \<Rightarrow> json \<Rightarrow> row \<Rightarrow> row" where
  "assign c v [] = [(c, v)]"
| "assign c v ((k, w) # r) = (if k = c then (c, v) # r else (k, w) # assign c v r)"

text \<open>
  The object given to \<^verbatim>\<open>.set({...})\<close> is applied key by key, in the order of the
  object literal; a later key overrides an earlier one of the same name, as the spread
  \<^verbatim>\<open>{...jobData, updatedAt: new Date()}\<close> does.
\<close>

definition apply_set :: "row \<Rightarrow> row \<Rightarrow> row" where
  "apply_set s r = foldl (\<lambda>acc (c, v). assign c v acc) r s"

text \<open>
  The tables the source imports from \<^verbatim>\<open>src/db/schema\<close>, and the two serial sequences
  that number job categories and job levels.
\<close>

record db =
  job_tbl :: "row list"
  jobCategory_tbl :: "row list"
  jobLevel_tbl :: "row list"
  company_tbl :: "row list"
  jobSaved_tbl :: "row list"
  user_tbl :: "row list"
  jobCategory_seq :: int
  jobLevel_seq :: int

section \<open>Exceptions\<close>

text \<open>
  What a \<^verbatim>\<open>catch\<close> block of the source can receive: a \<^verbatim>\<open>ZodError\<close> with its issues,
  an \<^verbatim>\<open>Error\<close> thrown by the database driver or by the code, or a \<^verbatim>\<open>TypeError\<close> raised
  by the runtime. All three are instances of \<^verbatim>\<open>Error\<close>.
\<close>

datatype exn =
    ZodError "json list"
  | Error string
  | TypeError string

fun is_ZodError :: "exn \<Rightarrow> bool" where
  "is_ZodError (ZodError _) = True"
| "is_ZodError _ = False"

text \<open>
  \<^verbatim>\<open>error.message\<close>. For a \<^verbatim>\<open>ZodError\<close> the library renders the issues; no handler reads
  that text, so only its existence is modelled.
\<close>

fun message :: "exn \<Rightarrow> string" where
  "message (ZodError _) = ''zod validation issues''"
| "message (Error m) = m"
| "message (TypeError m) = m"

fun errors :: "exn \<Rightarrow> json list" where
  "errors (ZodError is) = is"
| "errors _ = []"

section \<open>The environment of one call\<close>

text \<open>
  Everything a call reads that is neither its argument nor the stored state: the clock
  behind \<^verbatim>\<open>new Date()\<close>, and the storage layer's own failures. \<open>faults\<close> lists, for the
  queries of the call in the order they are issued, whether the driver throws before the
  statement runs (\<open>Some m\<close>: an \<^verbatim>\<open>Error\<close> with message \<open>m\<close>) or not; queries beyond the
  list do not fail. \<open>newId\<close> is the identifier the database generates for an inserted job.
  \<open>rawLength\<close> is the \<^verbatim>\<open>length\<close> property of what the driver resolves a statement without
  \<^verbatim>\<open>RETURNING\<close> to: \<open>Some 0\<close> for a driver that answers with an empty row list, \<open>None\<close>
  for one that answers with a result object.
\<close>

record env =
  now :: nat
  faults :: "string option list"
  newId :: string
  rawLength :: "nat option"

definition fault :: "env \<Rightarrow> nat \<Rightarrow> string option" where
  "fault e k = (if k < length (faults e) then faults e ! k else None)"

text \<open>A query either throws the driver's error or yields its result.\<close>

definition run :: "env \<Rightarrow> nat \<Rightarrow> (exn + 'a) \<Rightarrow> exn + 'a" where
  "run e k q = (case fault e k of Some m \<Rightarrow> Inl (Error m) | None \<Rightarrow> q)"

section \<open>The query builder\<close>

text \<open>\<^verbatim>\<open>eq(column, value)\<close>: true for a row whose column holds that value; NULL equals nothing.\<close>

definition eq :: "string \<Rightarrow> json \<Rightarrow> row \<Rightarrow> bool" where
  "eq c v r = (get r c = Some v)"

text \<open>\<^verbatim>\<open>db.select().from(t).where(p)\<close>.\<close>

definition select_where :: "(row \<Rightarrow> bool) \<Rightarrow> row list \<Rightarrow> row list" where
  "select_where p t = filter p t"

text \<open>\<^verbatim>\<open>db.select({password: user.password})\<close>: the projection to the listed columns.\<close>

definition project :: "string list \<Rightarrow> row \<Rightarrow> row" where
  "project cs r = concat (map (\<lambda>c. case get r c of None \<Rightarrow> [] | Some v \<Rightarrow> [(c, v)]) cs)"

text \<open>\<^verbatim>\<open>db.update(t).set(s).where(p).returning()\<close>: the new table and the updated rows.\<close>

definition update_where :: "row \<Rightarrow> (row \<Rightarrow> bool) \<Rightarrow> row list \<Rightarrow> row list \<times> row list" where
  "update_where s p t =
     (map (\<lambda>r. if p r then apply_set s r else r) t, map (apply_set s) (filter p t))"

text \<open>\<^verbatim>\<open>db.delete(t).where(p).returning()\<close>: the remaining table and the deleted rows.\<close>

definition delete_where :: "(row \<Rightarrow> bool) \<Rightarrow> row list \<Rightarrow> row list \<times> row list" where
  "delete_where p t = (filter (\<lambda>r. \<not> p r) t, filter p t)"

section \<open>userRepository\<close>

text \<open>
  \<^verbatim>\<open>result[0] as UserResponse | undefined\<close>: the first row, or \<^verbatim>\<open>undefined\<close> (\<open>None\<close>).
\<close>

definition first_row :: "row list \<Rightarrow> row option" where
  "first_row rs = (case rs of [] \<Rightarrow> None | r # _ \<Rightarrow> Some r)"

definition findByIdAsync :: "env \<Rightarrow> string \<Rightarrow> db \<Rightarrow> exn + row option" where
  "findByIdAsync e i d =
     (case run e 0 (Inr (select_where (eq ''id'' (JStr i)) (user_tbl d))) of
        Inl x \<Rightarrow> Inl x
      | Inr result \<Rightarrow> Inr (first_row result))"

text \<open>
  \<^verbatim>\<open>updateUserAsync\<close>: \<^verbatim>\<open>tags\<close> may be \<^verbatim>\<open>undefined\<close>, and the query builder leaves an
  undefined key out of the statement.
\<close>

definition updateUserAsync ::
  "env \<Rightarrow> string \<Rightarrow> string \<Rightarrow> int \<Rightarrow> int \<Rightarrow> string option \<Rightarrow> db \<Rightarrow> (exn + row option) \<times> db" where
  "updateUserAsync e i fullName levelId categoryId tags d =
     (let updatedAt = now e;
          s = [(''fullName'', JStr fullName), (''levelId'', JNum levelId),
               (''categoryId'', JNum categoryId)]
              @ (case tags of None \<Rightarrow> [] | Some t \<Rightarrow> [(''tags'', JStr t)])
              @ [(''updatedAt'', JDate updatedAt)]
      in case run e 0 (Inr (update_where s (eq ''id'' (JStr i)) (user_tbl d))) of
           Inl x \<Rightarrow> (Inl x, d)
         | Inr (t', result) \<Rightarrow> (Inr (first_row result), d\<lparr>user_tbl := t'\<rparr>))"

definition resetPasswordAsync ::
  "env \<Rightarrow> string \<Rightarrow> string \<Rightarrow> db \<Rightarrow> (exn + row option) \<times> db" where
  "resetPasswordAsync e i password d =
     (let updatedAt = now e;
          s = [(''password'', JStr password), (''updatedAt'', JDate updatedAt)]
      in case run e 0 (Inr (update_where s (eq ''id'' (JStr i)) (user_tbl d))) of
           Inl x \<Rightarrow> (Inl x, d)
         | Inr (t', result) \<Rightarrow> (Inr (first_row result), d\<lparr>user_tbl := t'\<rparr>))"

text \<open>
  \<^verbatim>\<open>getPasswordAsync\<close> reads \<^verbatim>\<open>pass[0].password\<close> with no guard. On an empty result
  \<^verbatim>\<open>pass[0]\<close> is \<^verbatim>\<open>undefined\<close> and the property read throws a \<^verbatim>\<open>TypeError\<close>. On a row
  whose password is NULL the read yields \<^verbatim>\<open>null\<close>.
\<close>

definition getPasswordAsync :: "env \<Rightarrow> string \<Rightarrow> db \<Rightarrow> exn + json" where
  "getPasswordAsync e i d =
     (case run e 0 (Inr (map (project [''password''])
                          (select_where (eq ''id'' (JStr i)) (user_tbl d)))) of
        Inl x \<Rightarrow> Inl x
      | Inr pass \<Rightarrow>
          (case pass of
             [] \<Rightarrow> Inl (TypeError ''Cannot read properties of undefined (reading 'password')'')
           | p # _ \<Rightarrow> Inr (case get p ''password'' of None \<Rightarrow> JNull | Some v \<Rightarrow> v)))"

section \<open>Strings and numbers of the runtime\<close>

text \<open>
  \<^verbatim>\<open>String.prototype.toLowerCase\<close> on 8-bit code units: the letters A to Z and the
  capital letters of the Latin-1 block (all of 0xC0 to 0xDE but the multiplication sign)
  move up by 32; every other unit stays.
\<close>

definition toLowerCase_char :: "char \<Rightarrow> char" where
  "toLowerCase_char c =
     (let n = (of_char c :: nat)
      in if (65 \<le> n \<and> n \<le> 90) \<or> (192 \<le> n \<and> n \<le> 222 \<and> n \<noteq> 215)
         then char_of (n + 32) else c)"

definition toLowerCase :: "string \<Rightarrow> string" where
  "toLowerCase s = map toLowerCase_char s"

text \<open>
  \<^verbatim>\<open>toLocaleLowerCase()\<close> with no argument follows the host's default locale. The model
  takes a host whose locale has no casing rule of its own, where the result is that of
  \<^verbatim>\<open>toLowerCase\<close>.
\<close>

definition toLocaleLowerCase :: "string \<Rightarrow> string" where
  "toLocaleLowerCase s = toLowerCase s"

text \<open>\<^verbatim>\<open>String.prototype.includes\<close>: the argument occurs as a contiguous part.\<close>

fun includes_str :: "string \<Rightarrow> string \<Rightarrow> bool" where
  "includes_str [] sub = (sub = [])"
| "includes_str (c # cs) sub = (take (length sub) (c # cs) = sub \<or> includes_str cs sub)"

text \<open>
  \<^verbatim>\<open>parseInt(s, 10)\<close>: leading white space is skipped, one sign is read, then the longest
  run of decimal digits; what follows is ignored. With no digit the result is \<^verbatim>\<open>NaN\<close>
  (\<open>None\<close>). \<^verbatim>\<open>parseInt(undefined, 10)\<close> is \<^verbatim>\<open>NaN\<close> as well.
\<close>

definition is_space :: "char \<Rightarrow> bool" where
  "is_space c = ((of_char c :: nat) \<in> {9, 10, 11, 12, 13, 32, 160})"

definition is_digit :: "char \<Rightarrow> bool" where
  "is_digit c = (48 \<le> (of_char c :: nat) \<and> (of_char c :: nat) \<le> 57)"

definition digits_value :: "string \<Rightarrow> int" where
  "digits_value ds = foldl (\<lambda>a c. 10 * a + (int (of_char c) - 48)) 0 ds"

definition parseInt :: "string \<Rightarrow> int option" where
  "parseInt s =
     (let t = dropWhile is_space s;
          neg = (case t of [] \<Rightarrow> False | c # _ \<Rightarrow> c = CHR ''-'');
          u = (case t of [] \<Rightarrow> [] | c # cs \<Rightarrow> if c = CHR ''-'' \<or> c = CHR ''+'' then cs else t);
          ds = takeWhile is_digit u
      in if ds = [] then None
         else Some (if neg then - digits_value ds else digits_value ds))"

definition parseInt_opt :: "string option \<Rightarrow> int option" where
  "parseInt_opt x = (case x of None \<Rightarrow> None | Some s \<Rightarrow> parseInt s)"

text \<open>\<^verbatim>\<open>n || dflt\<close> on a number: \<^verbatim>\<open>NaN\<close> and 0 are falsy.\<close>

definition or_default :: "int option \<Rightarrow> int \<Rightarrow> int" where
  "or_default n dflt = (case n of None \<Rightarrow> dflt | Some k \<Rightarrow> if k = 0 then dflt else k)"

text \<open>
  \<^verbatim>\<open>z.string().uuid()\<close> of the validation library: eight, four, four, four and twelve
  hexadecimal digits of either case, joined by hyphens.
\<close>

definition is_hex :: "char \<Rightarrow> bool" where
  "is_hex c =
     (let n = (of_char c :: nat)
      in (48 \<le> n \<and> n \<le> 57) \<or> (65 \<le> n \<and> n \<le> 70) \<or> (97 \<le> n \<and> n \<le> 102))"

definition zod_uuid :: "string \<Rightarrow> bool" where
  "zod_uuid s =
     list_all2 (\<lambda>p c. if p = CHR ''-'' then c = CHR ''-'' else is_hex c)
       ''xxxxxxxx-xxxx-xxxx-xxxx-xxxxxxxxxxxx'' s"

text \<open>
  The SQL operator \<^verbatim>\<open>LIKE\<close>: \<^verbatim>\<open>%\<close> matches any run of characters, \<^verbatim>\<open>_\<close> any one
  character, and a backslash takes the next pattern character literally. The handler
  always ends its pattern with \<^verbatim>\<open>%\<close>, so a pattern ending in a lone backslash (which
  the database rejects) does not occur; it matches nothing here.
\<close>

fun like_match :: "string \<Rightarrow> string \<Rightarrow> bool" where
  "like_match [] s = (s = [])"
| "like_match (p # ps) s =
     (if p = CHR ''%'' then
        (if like_match ps s then True
         else (case s of [] \<Rightarrow> False | _ # t \<Rightarrow> like_match (p # ps) t))
      else if p = CHR ''_'' then
        (case s of [] \<Rightarrow> False | _ # t \<Rightarrow> like_match ps t)
      else if p = CHR 0x5C then
        (case ps of
           [] \<Rightarrow> False
         | q # qs \<Rightarrow> (case s of [] \<Rightarrow> False | c # t \<Rightarrow> c = q \<and> like_match qs t))
      else (case s of [] \<Rightarrow> False | c # t \<Rightarrow> c = p \<and> like_match ps t))"

section \<open>Requests and responses\<close>

text \<open>
  \<^verbatim>\<open>req.user\<close> is the principal the authentication layer attaches, if any. Route and
  query parameters are strings by name.
\<close>

record principal =
  user_id :: string
  role :: string

record request =
  user :: "principal option"
  params :: "(string \<times> string) list"
  query :: "(string \<times> string) list"
  body :: json

record response =
  status :: nat
  body_of :: json

text \<open>
  A handler either sends a response or lets an exception escape (a statement outside every
  \<^verbatim>\<open>try\<close> threw).
\<close>

datatype outcome = Responded response | Unhandled exn

definition reply :: "nat \<Rightarrow> json \<Rightarrow> outcome" where
  "reply s b = Responded \<lparr>status = s, body_of = b\<rparr>"

text \<open>A parameter read and tested with \<^verbatim>\<open>!x\<close>: absent and empty are both falsy.\<close>

definition truthy :: "string option \<Rightarrow> string option" where
  "truthy x = (case x of None \<Rightarrow> None | Some s \<Rightarrow> if s = [] then None else Some s)"

text \<open>
  The admin gate, \<^verbatim>\<open>!req.user || req.user.role.toLowerCase() != 'admin'\<close>, and its
  variant with \<^verbatim>\<open>toLocaleLowerCase\<close> in \<^verbatim>\<open>approveJob\<close> and \<^verbatim>\<open>rejectJob\<close>.
\<close>

definition unauthorized :: "request \<Rightarrow> bool" where
  "unauthorized req =
     (case user req of None \<Rightarrow> True | Some u \<Rightarrow> toLowerCase (role u) \<noteq> ''admin'')"

definition unauthorized_locale :: "request \<Rightarrow> bool" where
  "unauthorized_locale req =
     (case user req of None \<Rightarrow> True | Some u \<Rightarrow> toLocaleLowerCase (role u) \<noteq> ''admin'')"

text \<open>
  The schemas of \<^verbatim>\<open>./jobModel\<close> are not part of the source at hand. The handlers take
  them as a parameter: each maps a request body to the validation issues or to the parsed
  data. \<^verbatim>\<open>JobCategorySchema\<close> yields the object whose \<^verbatim>\<open>title\<close> the handlers destructure.
\<close>

record schemas =
  createJobSchema :: "json \<Rightarrow> json list + row"
  JobSchema :: "json \<Rightarrow> json list + row"
  JobCategorySchema :: "json \<Rightarrow> json list + string"

section \<open>Inserting rows\<close>

text \<open>
  Modelled from the spec: the table definitions of \<^verbatim>\<open>src/db/schema\<close> are not part of the
  source at hand. Every table addressed by \<^verbatim>\<open>id\<close> has it as its primary key, and the
  titles of job categories and of job levels are unique; a statement that would break
  either is rejected with the database's duplicate-key error. Failures of constraints
  that are not tracked here (foreign keys) reach a handler as a fault of the environment.
\<close>

definition duplicate_key :: "string \<Rightarrow> exn" where
  "duplicate_key c = Error (''duplicate key value violates unique constraint '' @ c)"

definition holds :: "string \<Rightarrow> json \<Rightarrow> row list \<Rightarrow> bool" where
  "holds c v t = (\<exists>r \<in> set t. get r c = Some v)"

text \<open>\<^verbatim>\<open>db.insert(t).values(v).returning()\<close> with the generated id \<open>i\<close>.\<close>

definition insert_returning :: "json \<Rightarrow> row \<Rightarrow> row list \<Rightarrow> exn + (row list \<times> row)" where
  "insert_returning i v t =
     (if holds ''id'' i t then Inl (duplicate_key ''pkey'')
      else Inr (t @ [(''id'', i) # v], (''id'', i) # v))"

text \<open>The same for a table with a unique title.\<close>

definition insert_titled :: "json \<Rightarrow> string \<Rightarrow> row list \<Rightarrow> exn + (row list \<times> row)" where
  "insert_titled i title t =
     (if holds ''id'' i t then Inl (duplicate_key ''pkey'')
      else if holds ''title'' (JStr title) t then Inl (duplicate_key ''title_unique'')
      else Inr (t @ [[(''id'', i), (''title'', JStr title)]], [(''id'', i), (''title'', JStr title)]))"

text \<open>An update of titles is rejected when it leaves two rows with one title.\<close>

definition update_titled ::
  "row \<Rightarrow> (row \<Rightarrow> bool) \<Rightarrow> row list \<Rightarrow> exn + (row list \<times> row list)" where
  "update_titled s p t =
     (case update_where s p t of
        (t', updated) \<Rightarrow>
          if updated \<noteq> [] \<and> \<not> distinct (List.map_filter (\<lambda>r. get r ''title'') t')
          then Inl (duplicate_key ''title_unique'')
          else Inr (t', updated))"

text \<open>
  Binding a number to an integer column: \<^verbatim>\<open>NaN\<close> is not an integer, and the database
  rejects the statement.
\<close>

definition bind_int :: "int option \<Rightarrow> exn + json" where
  "bind_int n =
     (case n of
        None \<Rightarrow> Inl (Error ''invalid input syntax for type integer: NaN'')
      | Some k \<Rightarrow> Inr (JNum k))"

section \<open>jobService: jobs\<close>


text \<open>
  \<^verbatim>\<open>deleteJobById\<close> deletes without \<^verbatim>\<open>RETURNING\<close> and then tests the \<^verbatim>\<open>length\<close> of
  what the driver resolved to; the rows are gone by then either way.
\<close>

definition deleteJobById :: "request \<Rightarrow> env \<Rightarrow> db \<Rightarrow> outcome \<times> db" where
  "deleteJobById req e d =
     (if unauthorized req then (reply 401 (JObj [(''message'', JStr ''Unauthorized'')]), d)
      else
        (case truthy (map_of (params req) ''id'') of
           None \<Rightarrow> (reply 400 (JObj [(''message'', JStr ''Job ID is required'')]), d)
         | Some i \<Rightarrow>
             (case run e 0 (Inr (delete_where (eq ''id'' (JStr i)) (job_tbl d))) of
                Inl error \<Rightarrow>
                  (reply 500 (JObj [(''message'', JStr ''Internal Server Error''),
                                    (''error'', JStr (message error))]), d)
              | Inr (t', _) \<Rightarrow>
                  (if rawLength e = Some 0
                   then reply 404 (JObj [(''message'', JStr ''Job not found'')])
                   else reply 204 JNull,
                   d\<lparr>job_tbl := t'\<rparr>))))"

definition updateJob :: "schemas \<Rightarrow> request \<Rightarrow> env \<Rightarrow> db \<Rightarrow> outcome \<times> db" where
  "updateJob sc req e d =
     (if unauthorized req then (reply 401 (JObj [(''message'', JStr ''Unauthorized'')]), d)
      else
        (case map_of (params req) ''jobId'' of
           None \<Rightarrow> (reply 400 (JObj [(''error'', JStr ''Invalid job ID format'')]), d)
         | Some jobId \<Rightarrow>
             if \<not> zod_uuid jobId
             then (reply 400 (JObj [(''error'', JStr ''Invalid job ID format'')]), d)
             else
               (case (case JobSchema sc (body req) of
                        Inl issues \<Rightarrow> Inl (ZodError issues)
                      | Inr jobData \<Rightarrow>
                          run e 0 (Inr (update_where (jobData @ [(''updatedAt'', JDate (now e))])
                                          (eq ''id'' (JStr jobId)) (job_tbl d)))) of
                  Inl error \<Rightarrow>
                    (if is_ZodError error
                     then reply 422 (JObj [(''error'', JStr ''Validation exception''),
                                           (''msg'', JArr (errors error))])
                     else reply 500 (JObj [(''error'', JStr ''Internal server error'')]), d)
                | Inr (t', updatedJob) \<Rightarrow>
                    (case updatedJob of
                       [] \<Rightarrow> reply 404 (JObj [(''error'', JStr ''Job not found'')])
                     | u # _ \<Rightarrow> reply 200 (JObj u),
                     d\<lparr>job_tbl := t'\<rparr>))))"

text \<open>
  The listing joins each job to its category, level and company. A left join keeps a job
  with no partner, with NULL in the partner's place.
\<close>

record joined =
  j_job :: row
  j_category :: "row option"
  j_level :: "row option"
  j_company :: "row option"

definition leftJoin :: "row list \<Rightarrow> (row \<Rightarrow> bool) \<Rightarrow> row option list" where
  "leftJoin t on = (case filter on t of [] \<Rightarrow> [None] | ms \<Rightarrow> map Some ms)"

definition key_eq :: "json option \<Rightarrow> json option \<Rightarrow> bool" where
  "key_eq a b = (a \<noteq> None \<and> a = b)"

definition job_joins :: "db \<Rightarrow> joined list" where
  "job_joins d =
     [\<lparr>j_job = jb, j_category = c, j_level = l, j_company = co\<rparr>.
        jb \<leftarrow> job_tbl d,
        c \<leftarrow> leftJoin (jobCategory_tbl d) (\<lambda>r. key_eq (get jb ''categoryId'') (get r ''id'')),
        l \<leftarrow> leftJoin (jobLevel_tbl d) (\<lambda>r. key_eq (get jb ''levelId'') (get r ''id'')),
        co \<leftarrow> leftJoin (company_tbl d) (\<lambda>r. key_eq (get jb ''companyId'') (get r ''id''))]"

definition opt_col :: "row option \<Rightarrow> string \<Rightarrow> json" where
  "opt_col r c = (case r of None \<Rightarrow> JNull | Some x \<Rightarrow> (case get x c of None \<Rightarrow> JNull | Some v \<Rightarrow> v))"

text \<open>\<^verbatim>\<open>like(company.name, pattern)\<close>: NULL, from a job with no company, matches nothing.\<close>

definition like_company :: "string \<Rightarrow> joined \<Rightarrow> bool" where
  "like_company pat x =
     (case opt_col (j_company x) ''name'' of JStr n \<Rightarrow> like_match pat n | _ \<Rightarrow> False)"

text \<open>
  \<^verbatim>\<open>and(...conditions)\<close>: a condition whose operand cannot be bound makes the statement
  fail; otherwise a row passes when every condition holds.
\<close>

definition and_all :: "(exn + (joined \<Rightarrow> bool)) list \<Rightarrow> exn + (joined \<Rightarrow> bool)" where
  "and_all cs =
     (case [x. Inl x \<leftarrow> cs] of
        x # _ \<Rightarrow> Inl x
      | [] \<Rightarrow> Inr (\<lambda>r. list_all (\<lambda>p. p r) [p. Inr p \<leftarrow> cs]))"

text \<open>
  \<^verbatim>\<open>.limit(l).offset(o)\<close>. The query builder writes a limit into the statement only
  when it is not negative, and an offset only when it is not 0; with a negative limit the
  statement has no \<^verbatim>\<open>LIMIT\<close> and yields every row from the offset on. A negative
  offset is written into the statement, and the database rejects it.
\<close>

definition limit_offset :: "int \<Rightarrow> int \<Rightarrow> 'a list \<Rightarrow> exn + 'a list" where
  "limit_offset l off xs =
     (if off < 0 then Inl (Error ''OFFSET must not be negative'')
      else if l < 0 then Inr (drop (nat off) xs)
      else Inr (take (nat l) (drop (nat off) xs)))"

text \<open>
  \<^verbatim>\<open>count(*)\<close> is a 64-bit integer of the database, which the driver hands over as its
  decimal string. \<^verbatim>\<open>totalCount[0].count\<close> is that string: it goes into the response as
  it is, and the division \<^verbatim>\<open>count / limit\<close> reads it as a number first.
\<close>

fun decimal :: "nat \<Rightarrow> string" where
  "decimal n =
     (if n < 10 then [char_of (48 + n)]
      else decimal (n div 10) @ [char_of (48 + n mod 10)])"

declare decimal.simps [simp del]

definition count_star :: "'a list \<Rightarrow> string" where
  "count_star rows = decimal (length rows)"

text \<open>
  The number a string is read as by an arithmetic operator, for the strings that occur
  here: a run of decimal digits reads as its value. Any other string is \<^verbatim>\<open>NaN\<close> in this
  model (\<open>None\<close>); the counts of the driver are never such.
\<close>

definition ToNumber :: "string \<Rightarrow> int option" where
  "ToNumber s = (if s \<noteq> [] \<and> list_all is_digit s then Some (digits_value s) else None)"

text \<open>
  \<^verbatim>\<open>Math.ceil(count / limit)\<close>, as the response carries it: \<^verbatim>\<open>NaN\<close> is serialised
  as \<^verbatim>\<open>null\<close>.
\<close>

definition Math_ceil_div :: "string \<Rightarrow> int \<Rightarrow> json" where
  "Math_ceil_div count l =
     (case ToNumber count of
        None \<Rightarrow> JNull
      | Some c \<Rightarrow> JNum \<lceil>real_of_int c / real_of_int l\<rceil>)"

text \<open>One element of \<^verbatim>\<open>data\<close> in the listing's response.\<close>

definition listed :: "joined \<Rightarrow> json" where
  "listed x =
     JObj [(''job'', JObj (j_job x)),
           (''category'', opt_col (j_category x) ''title''),
           (''level'', opt_col (j_level x) ''title''),
           (''companyName'', opt_col (j_company x) ''name'')]"

text \<open>
  The list \<^verbatim>\<open>conditions\<close> of \<^verbatim>\<open>getJobs\<close>: it starts with the approval condition, and
  each filter of the query string that is present (and not empty) pushes one more.
\<close>

definition conditions :: "request \<Rightarrow> (exn + (joined \<Rightarrow> bool)) list" where
  "conditions req =
     (let categoryId = map_of (query req) ''categoryId'';
          levelId = map_of (query req) ''levelId'';
          companyName = map_of (query req) ''companyName''
      in [Inr (\<lambda>x. eq ''isApproved'' (JBool True) (j_job x))]
         @ (case truthy categoryId of
              None \<Rightarrow> []
            | Some c \<Rightarrow>
                [case bind_int (parseInt c) of
                   Inl x \<Rightarrow> Inl x
                 | Inr v \<Rightarrow> Inr (\<lambda>x. eq ''categoryId'' v (j_job x))])
         @ (case truthy levelId of
              None \<Rightarrow> []
            | Some l \<Rightarrow>
                [case bind_int (parseInt l) of
                   Inl x \<Rightarrow> Inl x
                 | Inr v \<Rightarrow> Inr (\<lambda>x. eq ''levelId'' v (j_job x))])
         @ (case truthy companyName of
              None \<Rightarrow> []
            | Some n \<Rightarrow> [Inr (like_company (''%'' @ n @ ''%''))]))"

text \<open>
  The rows both queries of \<^verbatim>\<open>getJobs\<close> range over: the joins, restricted by
  \<^verbatim>\<open>and(...conditions)\<close> when the list is not empty.
\<close>

definition selected :: "request \<Rightarrow> db \<Rightarrow> exn + joined list" where
  "selected req d =
     (if conditions req \<noteq> []
      then (case and_all (conditions req) of
              Inl x \<Rightarrow> Inl x
            | Inr p \<Rightarrow> Inr (filter p (job_joins d)))
      else Inr (job_joins d))"

text \<open>
  \<^verbatim>\<open>getJobs\<close>. \<open>page\<close> and \<open>limit\<close> are read from the query string with their
  defaults. The count query is the first query of the call and the page query the second;
  \<^verbatim>\<open>Promise.all\<close> rejects when either does. \<^verbatim>\<open>res.json\<close> without a status answers
  200.
\<close>

definition page :: "request \<Rightarrow> int" where
  "page req =
     (let pageIndex = (case map_of (query req) ''pageIndex'' of None \<Rightarrow> ''1'' | Some s \<Rightarrow> s)
      in or_default (parseInt pageIndex) 1)"

definition limit :: "request \<Rightarrow> int" where
  "limit req =
     (let pageSize = (case map_of (query req) ''pageSize'' of None \<Rightarrow> ''10'' | Some s \<Rightarrow> s)
      in or_default (parseInt pageSize) 10)"

definition getJobs :: "request \<Rightarrow> env \<Rightarrow> db \<Rightarrow> outcome \<times> db" where
  "getJobs req e d =
     (let offset = (page req - 1) * limit req
      in case (case run e 0 (case selected req d of
                               Inl x \<Rightarrow> Inl x
                             | Inr rows \<Rightarrow> Inr (count_star rows)) of
                 Inl x \<Rightarrow> Inl x
               | Inr totalCount \<Rightarrow>
                   (case run e 1 (case selected req d of
                                    Inl x \<Rightarrow> Inl x
                                  | Inr rows \<Rightarrow> limit_offset (limit req) offset rows) of
                      Inl x \<Rightarrow> Inl x
                    | Inr result \<Rightarrow> Inr (totalCount, result))) of
           Inl error \<Rightarrow> (reply 500 (JObj [(''error'', JStr ''Internal server error'')]), d)
         | Inr (totalCount, result) \<Rightarrow>
             (if result = [] then reply 404 (JStr ''No job found'')
              else reply 200
                     (JObj [(''data'', JArr (map listed result)),
                            (''pagination'',
                             JObj [(''currentPage'', JNum (page req)),
                                   (''pageSize'', JNum (limit req)),
                                   (''totalCount'', JStr totalCount),
                                   (''totalPages'',
                                    Math_ceil_div totalCount (limit req))])]),
              d))"

text \<open>
  A field of the parsed payload handed to \<^verbatim>\<open>.values({...})\<close> under its column name; an
  absent (\<^verbatim>\<open>undefined\<close>) field leaves the column out of the statement.
\<close>

definition field :: "string \<Rightarrow> row \<Rightarrow> string \<Rightarrow> row" where
  "field c data k = (case get data k of None \<Rightarrow> [] | Some v \<Rightarrow> [(c, v)])"

definition submitJobForApproval :: "schemas \<Rightarrow> request \<Rightarrow> env \<Rightarrow> db \<Rightarrow> outcome \<times> db" where
  "submitJobForApproval sc req e d =
     (case user req of
        None \<Rightarrow> (reply 401 (JObj [(''message'', JStr ''Unauthorized'')]), d)
      | Some u \<Rightarrow>
          (let isAdmin = (toLowerCase (role u) = ''admin'')
           in case createJobSchema sc (body req) of
                Inl issues \<Rightarrow>
                  (reply 422 (JObj [(''message'', JStr ''Validation error''),
                                    (''errors'', JArr issues)]), d)
              | Inr data \<Rightarrow>
                  (case run e 0
                          (insert_returning (JStr (newId e))
                             (field ''title'' data ''title''
                              @ field ''levelId'' data ''level_id''
                              @ field ''categoryId'' data ''category_id''
                              @ field ''typeId'' data ''type_id''
                              @ field ''location'' data ''location''
                              @ field ''description'' data ''description''
                              @ field ''compensation'' data ''compensation''
                              @ field ''applicationLink'' data ''application_link''
                              @ field ''isExternal'' data ''is_external''
                              @ field ''companyId'' data ''company_id''
                              @ field ''tags'' data ''tags''
                              @ [(''isApproved'', JBool isAdmin)])
                             (job_tbl d)) of
                     Inl error \<Rightarrow> (reply 400 (JObj [(''message'', JStr ''Invalid input'')]), d)
                   | Inr (t', newJob) \<Rightarrow>
                       (reply 202 (JObj [(''message'', JStr ''Job submitted for approval''),
                                         (''jobId'', opt_col (Some newJob) ''id'')]),
                        d\<lparr>job_tbl := t'\<rparr>))))"

definition approveJob :: "request \<Rightarrow> env \<Rightarrow> db \<Rightarrow> outcome \<times> db" where
  "approveJob req e d =
     (if unauthorized_locale req
      then (reply 401 (JObj [(''message'', JStr ''Unauthorized'')]), d)
      else
        (case truthy (map_of (params req) ''jobId'') of
           None \<Rightarrow> (reply 400 (JObj [(''message'', JStr ''Invalid job ID'')]), d)
         | Some jobId \<Rightarrow>
             (case run e 0 (Inr (update_where [(''isApproved'', JBool True)]
                                   (eq ''id'' (JStr jobId)) (job_tbl d))) of
                Inl error \<Rightarrow> (reply 500 (JObj [(''message'', JStr ''Internal server error'')]), d)
              | Inr (t', result) \<Rightarrow>
                  (case result of
                     [] \<Rightarrow> reply 404 (JObj [(''message'', JStr ''Job not found'')])
                   | r # _ \<Rightarrow>
                       reply 200 (JObj [(''message'', JStr ''Job approved successfully''),
                                        (''jobId'', opt_col (Some r) ''id'')]),
                   d\<lparr>job_tbl := t'\<rparr>))))"

definition rejectJob :: "request \<Rightarrow> env \<Rightarrow> db \<Rightarrow> outcome \<times> db" where
  "rejectJob req e d =
     (if unauthorized_locale req
      then (reply 401 (JObj [(''message'', JStr ''Unauthorized'')]), d)
      else
        (case truthy (map_of (params req) ''jobId'') of
           None \<Rightarrow> (reply 400 (JObj [(''message'', JStr ''Invalid job ID'')]), d)
         | Some jobId \<Rightarrow>
             (case run e 0 (Inr (delete_where (eq ''id'' (JStr jobId)) (job_tbl d))) of
                Inl error \<Rightarrow> (reply 500 (JObj [(''message'', JStr ''Internal server error'')]), d)
              | Inr (t', rejectedJob) \<Rightarrow>
                  (case rejectedJob of
                     [] \<Rightarrow> reply 404 (JObj [(''message'', JStr ''Job not found'')])
                   | r # _ \<Rightarrow>
                       reply 200 (JObj [(''message'', JStr ''Job rejected successfully''),
                                        (''jobId'', JObj r)]),
                   d\<lparr>job_tbl := t'\<rparr>))))"

section \<open>jobService: job categories\<close>

text \<open>
  In \<^verbatim>\<open>createJobCategory\<close> the body is parsed before the \<^verbatim>\<open>try\<close>, so a validation
  error escapes the handler. The \<^verbatim>\<open>.catch\<close> callback on the insert evaluates
  \<^verbatim>\<open>new error('Job category already exist')\<close>, where \<^verbatim>\<open>error\<close> is the caught exception
  and not a constructor: the runtime throws a \<^verbatim>\<open>TypeError\<close> in place of the intended
  error. A failed insert has still drawn its number from the sequence.
\<close>

definition new_on_caught :: "exn \<Rightarrow> string \<Rightarrow> exn" where
  "new_on_caught error msg = TypeError ''error is not a constructor''"

definition createJobCategory :: "schemas \<Rightarrow> request \<Rightarrow> env \<Rightarrow> db \<Rightarrow> outcome \<times> db" where
  "createJobCategory sc req e d =
     (case JobCategorySchema sc (body req) of
        Inl issues \<Rightarrow> (Unhandled (ZodError issues), d)
      | Inr title \<Rightarrow>
          (case (case fault e 0 of
                   Some m \<Rightarrow> (Inl (new_on_caught (Error m) ''Job category already exist''), d)
                 | None \<Rightarrow>
                     (case insert_titled (JNum (jobCategory_seq d)) title (jobCategory_tbl d) of
                        Inl error \<Rightarrow>
                          (Inl (new_on_caught error ''Job category already exist''),
                           d\<lparr>jobCategory_seq := jobCategory_seq d + 1\<rparr>)
                      | Inr (t', newCategory) \<Rightarrow>
                          (Inr (reply 201
                                  (JObj [(''message'', JStr ''Job category created successfully''),
                                         (''category'', JObj newCategory)])),
                           d\<lparr>jobCategory_tbl := t', jobCategory_seq := jobCategory_seq d + 1\<rparr>))) of
             (Inl error, d') \<Rightarrow>
               (if is_ZodError error
                then reply 400 (JObj [(''message'', JStr ''Invalid input''),
                                      (''errors'', JArr (errors error))])
                else if message error = ''Job category already exists''
                then reply 409 (JObj [(''message'', JStr (message error))])
                else reply 500 (JObj [(''message'', JStr ''Internal server error'')]), d')
           | (Inr r, d') \<Rightarrow> (r, d')))"

definition getCategoryById :: "request \<Rightarrow> env \<Rightarrow> db \<Rightarrow> outcome \<times> db" where
  "getCategoryById req e d =
     (let categoryID = parseInt_opt (map_of (params req) ''id'')
      in case run e 0 (case bind_int categoryID of
                         Inl x \<Rightarrow> Inl x
                       | Inr v \<Rightarrow> Inr (select_where (eq ''id'' v) (jobCategory_tbl d))) of
           Inl error \<Rightarrow> (reply 500 (JObj [(''message'', JStr ''Internal server error'')]), d)
         | Inr categoryFound \<Rightarrow>
             (case categoryFound of
                [] \<Rightarrow> reply 404 (JObj [(''message'', JStr ''Category not found'')])
              | c # _ \<Rightarrow> reply 200 (JObj [(''category'', JObj c)]),
              d))"

definition upadteJobCategory :: "schemas \<Rightarrow> request \<Rightarrow> env \<Rightarrow> db \<Rightarrow> outcome \<times> db" where
  "upadteJobCategory sc req e d =
     (let categoryID = parseInt_opt (map_of (params req) ''id'')
      in case (case JobCategorySchema sc (body req) of
                 Inl issues \<Rightarrow> Inl (ZodError issues)
               | Inr title \<Rightarrow>
                   run e 0 (case bind_int categoryID of
                              Inl x \<Rightarrow> Inl x
                            | Inr v \<Rightarrow>
                                update_titled [(''title'', JStr title)] (eq ''id'' v)
                                  (jobCategory_tbl d))) of
           Inl error \<Rightarrow>
             (if is_ZodError error
              then reply 400 (JObj [(''message'', JStr ''Invalid input''),
                                    (''errors'', JArr (errors error))])
              else if includes_str (message error) ''unique constraint''
              then reply 409 (JObj [(''message'',
                                     JStr ''A job category with this title already exists'')])
              else reply 500 (JObj [(''message'', JStr ''Internal server error'')]), d)
         | Inr (t', updatedCategory) \<Rightarrow>
             (case updatedCategory of
                [] \<Rightarrow> reply 404 (JObj [(''message'', JStr ''Job category not found'')])
              | c # _ \<Rightarrow>
                  reply 200 (JObj [(''message'', JStr ''Job category updated successfully''),
                                   (''category'', JObj c)]),
              d\<lparr>jobCategory_tbl := t'\<rparr>))"

definition deleteJobCategory :: "request \<Rightarrow> env \<Rightarrow> db \<Rightarrow> outcome \<times> db" where
  "deleteJobCategory req e d =
     (let categoryID = parseInt_opt (map_of (params req) ''id'')
      in case run e 0 (case bind_int categoryID of
                         Inl x \<Rightarrow> Inl x
                       | Inr v \<Rightarrow> Inr (delete_where (eq ''id'' v) (jobCategory_tbl d))) of
           Inl error \<Rightarrow> (reply 500 (JObj [(''error'', JStr ''Internal server error'')]), d)
         | Inr (t', deletedCategory) \<Rightarrow>
             (case deletedCategory of
                [] \<Rightarrow> reply 404 (JObj [(''error'', JStr ''Job category not found'')])
              | c # _ \<Rightarrow>
                  reply 200 (JObj [(''message'', JStr ''Job category deleted successfully''),
                                   (''category'', JObj c)]),
              d\<lparr>jobCategory_tbl := t'\<rparr>))"


section \<open>jobService: job levels\<close>

text \<open>
  \<^verbatim>\<open>createJobLevel\<close> parses inside the \<^verbatim>\<open>try\<close>. Its \<^verbatim>\<open>.catch\<close> callback evaluates
  \<^verbatim>\<open>error('Job category already exist')\<close>, a call of the caught exception, which is not
  a function: again a \<^verbatim>\<open>TypeError\<close>.
\<close>

definition call_on_caught :: "exn \<Rightarrow> string \<Rightarrow> exn" where
  "call_on_caught error msg = TypeError ''error is not a function''"

definition createJobLevel :: "schemas \<Rightarrow> request \<Rightarrow> env \<Rightarrow> db \<Rightarrow> outcome \<times> db" where
  "createJobLevel sc req e d =
     (case (case JobCategorySchema sc (body req) of
              Inl issues \<Rightarrow> (Inl (ZodError issues), d)
            | Inr title \<Rightarrow>
                (case fault e 0 of
                   Some m \<Rightarrow> (Inl (call_on_caught (Error m) ''Job category already exist''), d)
                 | None \<Rightarrow>
                     (case insert_titled (JNum (jobLevel_seq d)) title (jobLevel_tbl d) of
                        Inl error \<Rightarrow>
                          (Inl (call_on_caught error ''Job category already exist''),
                           d\<lparr>jobLevel_seq := jobLevel_seq d + 1\<rparr>)
                      | Inr (t', newLevel) \<Rightarrow>
                          (Inr (reply 201
                                  (JObj [(''message'', JStr ''Job category created successfully''),
                                         (''category'', JObj newLevel)])),
                           d\<lparr>jobLevel_tbl := t', jobLevel_seq := jobLevel_seq d + 1\<rparr>)))) of
        (Inl error, d') \<Rightarrow>
          (if is_ZodError error
           then reply 400 (JObj [(''message'', JStr ''Invalid input''),
                                 (''errors'', JArr (errors error))])
           else if message error = ''Job category already exists''
           then reply 409 (JObj [(''message'', JStr (message error))])
           else reply 500 (JObj [(''message'', JStr ''Internal server error'')]), d')
      | (Inr r, d') \<Rightarrow> (r, d'))"


definition updateJobLevel :: "schemas \<Rightarrow> request \<Rightarrow> env \<Rightarrow> db \<Rightarrow> outcome \<times> db" where
  "updateJobLevel sc req e d =
     (let levelID = parseInt_opt (map_of (params req) ''id'')
      in case (case JobCategorySchema sc (body req) of
                 Inl issues \<Rightarrow> Inl (ZodError issues)
               | Inr title \<Rightarrow>
                   run e 0 (case bind_int levelID of
                              Inl x \<Rightarrow> Inl x
                            | Inr v \<Rightarrow>
                                update_titled [(''title'', JStr title)] (eq ''id'' v)
                                  (jobLevel_tbl d))) of
           Inl error \<Rightarrow>
             (if is_ZodError error
              then reply 400 (JObj [(''message'', JStr ''Invalid input''),
                                    (''errors'', JArr (errors error))])
              else if includes_str (message error) ''unique constraint''
              then reply 409 (JObj [(''message'',
                                     JStr ''A job level with this title already exists'')])
              else reply 500 (JObj [(''message'', JStr ''Internal server error'')]), d)
         | Inr (t', updatedLevel) \<Rightarrow>
             (case updatedLevel of
                [] \<Rightarrow> reply 404 (JObj [(''message'', JStr ''Job level not found'')])
              | l # _ \<Rightarrow>
                  reply 200 (JObj [(''message'', JStr ''Job level updated successfully''),
                                   (''level'', JObj l)]),
              d\<lparr>jobLevel_tbl := t'\<rparr>))"

definition deleteJobLevel :: "request \<Rightarrow> env \<Rightarrow> db \<Rightarrow> outcome \<times> db" where
  "deleteJobLevel req e d =
     (let levelID = parseInt_opt (map_of (params req) ''id'')
      in case run e 0 (case bind_int levelID of
                         Inl x \<Rightarrow> Inl x
                       | Inr v \<Rightarrow> Inr (delete_where (eq ''id'' v) (jobLevel_tbl d))) of
           Inl error \<Rightarrow> (reply 500 (JObj [(''error'', JStr ''Internal server error'')]), d)
         | Inr (t', deletedLevel) \<Rightarrow>
             (case deletedLevel of
                [] \<Rightarrow> reply 404 (JObj [(''error'', JStr ''Job level not found'')])
              | l # _ \<Rightarrow>
                  reply 200 (JObj [(''message'', JStr ''Job level deleted successfully''),
                                   (''level'', JObj l)]),
              d\<lparr>jobLevel_tbl := t'\<rparr>))"

section \<open>jobService: saved jobs\<close>


section \<open>Sample schemas, state and environment\<close>

text \<open>
  Concrete inputs for the examples below. The sample schemas accept any object as a job
  payload and any string as the body that carries a title.
\<close>

definition sample_schemas :: schemas where
  "sample_schemas =
     \<lparr>createJobSchema = (\<lambda>b. case b of JObj kv \<Rightarrow> Inr kv | _ \<Rightarrow> Inl [JStr ''Expected object'']),
      JobSchema = (\<lambda>b. case b of JObj kv \<Rightarrow> Inr kv | _ \<Rightarrow> Inl [JStr ''Expected object'']),
      JobCategorySchema = (\<lambda>b. case b of JStr t \<Rightarrow> Inr t | _ \<Rightarrow> Inl [JStr ''Expected string''])\<rparr>"

definition sample_db :: db where
  "sample_db =
     \<lparr>job_tbl = [[(''id'', JStr ''123e4567-e89b-12d3-a456-426614174000''), (''title'', JStr ''Dev''),
                   (''isApproved'', JBool False)],
                  [(''id'', JStr ''j2''), (''title'', JStr ''Ops''), (''isApproved'', JBool True)]],
      jobCategory_tbl = [[(''id'', JNum 1), (''title'', JStr ''Engineering'')]],
      jobLevel_tbl = [[(''id'', JNum 1), (''title'', JStr ''Senior'')]],
      company_tbl = [], jobSaved_tbl = [],
      user_tbl = [[(''id'', JStr ''u1''), (''password'', JStr ''h'')]],
      jobCategory_seq = 2, jobLevel_seq = 2\<rparr>"

definition sample_env :: env where
  "sample_env = \<lparr>now = 10, faults = [], newId = ''j9'', rawLength = None\<rparr>"




section \<open>Properties of userRepository\<close>

text \<open>
  C10. \<^verbatim>\<open>getPasswordAsync\<close>, called with an id that no stored user row holds, throws: it
  never returns a value, not even \<^verbatim>\<open>undefined\<close>. When the query itself succeeds the
  exception is the \<^verbatim>\<open>TypeError\<close> of reading \<^verbatim>\<open>password\<close> on \<^verbatim>\<open>undefined\<close>.
\<close>

theorem getPasswordAsync_missing_user_throws:
  assumes "\<not> holds ''id'' (JStr i) (user_tbl d)"
  shows "(\<exists>x. getPasswordAsync e i d = Inl x)
       \<and> (\<forall>v. getPasswordAsync e i d \<noteq> Inr v)
       \<and> (fault e 0 = None \<longrightarrow> (\<exists>m. getPasswordAsync e i d = Inl (TypeError m)))"
proof -
  from assms have "select_where (eq ''id'' (JStr i)) (user_tbl d) = []"
    by (auto simp: select_where_def eq_def holds_def filter_empty_conv)
  then show ?thesis
    by (simp add: getPasswordAsync_def run_def split: option.split)
qed

theorem getPasswordAsync_missing_user_throws_witness:
  "\<not> holds ''id'' (JStr ''u2'') (user_tbl sample_db)
   \<and> fault sample_env 0 = None
   \<and> (\<exists>m. getPasswordAsync sample_env ''u2'' sample_db = Inl (TypeError m))"
proof -
  have h: "\<not> holds ''id'' (JStr ''u2'') (user_tbl sample_db)"
    by (simp add: holds_def sample_db_def get_def)
  have f: "fault sample_env 0 = None"
    by (simp add: fault_def sample_env_def)
  from getPasswordAsync_missing_user_throws [OF h, of sample_env] f h show ?thesis
    by blast
qed

section \<open>Rows\<close>

lemma get_assign: "get (assign c v r) k = (if k = c then Some v else get r k)"
  by (induction r) (auto simp: get_def)

lemma assign_idem: "assign c v (assign c v r) = assign c v r"
  by (induction r) auto

lemma get_Cons: "get ((k, v) # r) c = (if k = c then Some v else get r c)"
  by (simp add: get_def)

lemma get_field_append: "c \<noteq> k \<Longrightarrow> get (field c data x @ r) k = get r k"
  by (simp add: field_def get_def split: option.split)

section \<open>Approval state of a submitted job\<close>

text \<open>
  C1. A valid job-creation payload submitted by a principal is stored (status 202, one new
  row, given that the storage call succeeds and the generated id is fresh), and the new
  row has \<^verbatim>\<open>isApproved = false\<close> when the principal's role, lower-cased, is not
  \<^verbatim>\<open>admin\<close>, and \<^verbatim>\<open>isApproved = true\<close> when it is.
\<close>

theorem submitJobForApproval_isApproved:
  assumes "user req = Some u"
      and "createJobSchema sc (body req) = Inr data"
      and "fault e 0 = None"
      and "\<not> holds ''id'' (JStr (newId e)) (job_tbl d)"
  shows "\<exists>newJob.
           submitJobForApproval sc req e d =
             (reply 202 (JObj [(''message'', JStr ''Job submitted for approval''),
                               (''jobId'', JStr (newId e))]),
              d\<lparr>job_tbl := job_tbl d @ [newJob]\<rparr>)
         \<and> (toLowerCase (role u) \<noteq> ''admin'' \<longrightarrow> get newJob ''isApproved'' = Some (JBool False))
         \<and> (toLowerCase (role u) = ''admin'' \<longrightarrow> get newJob ''isApproved'' = Some (JBool True))"
proof -
  define v where "v = field ''title'' data ''title''
                              @ field ''levelId'' data ''level_id''
                              @ field ''categoryId'' data ''category_id''
                              @ field ''typeId'' data ''type_id''
                              @ field ''location'' data ''location''
                              @ field ''description'' data ''description''
                              @ field ''compensation'' data ''compensation''
                              @ field ''applicationLink'' data ''application_link''
                              @ field ''isExternal'' data ''is_external''
                              @ field ''companyId'' data ''company_id''
                              @ field ''tags'' data ''tags''
                              @ [(''isApproved'', JBool (toLowerCase (role u) = ''admin''))]"
  have g: "get ((''id'', JStr (newId e)) # v) ''isApproved'' = Some (JBool (toLowerCase (role u) = ''admin''))"
    unfolding v_def by (simp add: get_Cons get_field_append)
  have "submitJobForApproval sc req e d =
             (reply 202 (JObj [(''message'', JStr ''Job submitted for approval''),
                               (''jobId'', JStr (newId e))]),
              d\<lparr>job_tbl := job_tbl d @ [(''id'', JStr (newId e)) # v]\<rparr>)"
    using assms unfolding v_def
    by (simp add: submitJobForApproval_def run_def insert_returning_def opt_col_def get_def)
  with g show ?thesis by auto
qed

theorem submitJobForApproval_isApproved_witness:
  "\<exists>newJob.
     submitJobForApproval sample_schemas
       \<lparr>user = Some \<lparr>user_id = ''u1'', role = ''Member''\<rparr>, params = [], query = [],
          body = JObj [(''title'', JStr ''QA'')]\<rparr> sample_env sample_db =
       (reply 202 (JObj [(''message'', JStr ''Job submitted for approval''),
                         (''jobId'', JStr ''j9'')]),
        sample_db\<lparr>job_tbl := job_tbl sample_db @ [newJob]\<rparr>)
     \<and> get newJob ''isApproved'' = Some (JBool False)"
  using submitJobForApproval_isApproved
    [of "\<lparr>user = Some \<lparr>user_id = ''u1'', role = ''Member''\<rparr>, params = [], query = [],
          body = JObj [(''title'', JStr ''QA'')]\<rparr>" "\<lparr>user_id = ''u1'', role = ''Member''\<rparr>"
        sample_schemas "[(''title'', JStr ''QA'')]" sample_env sample_db]
  by (simp add: sample_schemas_def sample_env_def sample_db_def fault_def holds_def get_def
        toLowerCase_def toLowerCase_char_def)

section \<open>The admin gate\<close>

text \<open>
  The four gated job handlers (update, delete, approve, reject) answer a request with no
  principal, or with a principal whose lower-cased role is not \<^verbatim>\<open>admin\<close>, with 401 and
  leave the stored state as it is. The create, update and delete handlers of job
  categories and job levels carry no gate: they answer the same whatever principal the
  request carries.
\<close>

lemma admin_gate_job_routes:
  assumes "user req = None \<or> (\<exists>u. user req = Some u \<and> toLowerCase (role u) \<noteq> ''admin'')"
  shows "updateJob sc req e d = (reply 401 (JObj [(''message'', JStr ''Unauthorized'')]), d)
       \<and> deleteJobById req e d = (reply 401 (JObj [(''message'', JStr ''Unauthorized'')]), d)
       \<and> approveJob req e d = (reply 401 (JObj [(''message'', JStr ''Unauthorized'')]), d)
       \<and> rejectJob req e d = (reply 401 (JObj [(''message'', JStr ''Unauthorized'')]), d)
       \<and> createJobCategory sc (req\<lparr>user := p\<rparr>) e d = createJobCategory sc req e d
       \<and> upadteJobCategory sc (req\<lparr>user := p\<rparr>) e d = upadteJobCategory sc req e d
       \<and> deleteJobCategory (req\<lparr>user := p\<rparr>) e d = deleteJobCategory req e d
       \<and> createJobLevel sc (req\<lparr>user := p\<rparr>) e d = createJobLevel sc req e d
       \<and> updateJobLevel sc (req\<lparr>user := p\<rparr>) e d = updateJobLevel sc req e d
       \<and> deleteJobLevel (req\<lparr>user := p\<rparr>) e d = deleteJobLevel req e d"
proof -
  from assms have u: "unauthorized req" and ul: "unauthorized_locale req"
    by (auto simp: unauthorized_def unauthorized_locale_def toLocaleLowerCase_def)
  have 1: "updateJob sc req e d = (reply 401 (JObj [(''message'', JStr ''Unauthorized'')]), d)"
    using u by (simp add: updateJob_def)
  have 2: "deleteJobById req e d = (reply 401 (JObj [(''message'', JStr ''Unauthorized'')]), d)"
    using u by (simp add: deleteJobById_def)
  have 3: "approveJob req e d = (reply 401 (JObj [(''message'', JStr ''Unauthorized'')]), d)"
    using ul by (simp add: approveJob_def)
  have 4: "rejectJob req e d = (reply 401 (JObj [(''message'', JStr ''Unauthorized'')]), d)"
    using ul by (simp add: rejectJob_def)
  have 5: "createJobCategory sc (req\<lparr>user := p\<rparr>) e d = createJobCategory sc req e d"
    by (simp add: createJobCategory_def)
  have 6: "upadteJobCategory sc (req\<lparr>user := p\<rparr>) e d = upadteJobCategory sc req e d"
    by (simp add: upadteJobCategory_def)
  have 7: "deleteJobCategory (req\<lparr>user := p\<rparr>) e d = deleteJobCategory req e d"
    by (simp add: deleteJobCategory_def)
  have 8: "createJobLevel sc (req\<lparr>user := p\<rparr>) e d = createJobLevel sc req e d"
    by (simp add: createJobLevel_def)
  have 9: "updateJobLevel sc (req\<lparr>user := p\<rparr>) e d = updateJobLevel sc req e d"
    by (simp add: updateJobLevel_def)
  have 10: "deleteJobLevel (req\<lparr>user := p\<rparr>) e d = deleteJobLevel req e d"
    by (simp add: deleteJobLevel_def)
  from 1 2 3 4 5 6 7 8 9 10 show ?thesis by simp
qed

text \<open>
  C2. The claim asks that every admin-gated mutation, the create, update and delete of job
  categories and job levels included, answers a request with no admin principal with 401
  and leaves the stored state unchanged. The category handlers do not: with no principal
  on the request, \<^verbatim>\<open>createJobCategory\<close> answers 201 and stores the new category, and
  \<^verbatim>\<open>deleteJobCategory\<close> answers 200 and removes the stored one.
\<close>

theorem category_mutation_without_principal:
  "user \<lparr>user = None, params = [(''id'', ''1'')], query = [], body = JStr ''Design''\<rparr> = None
   \<and> createJobCategory sample_schemas
        \<lparr>user = None, params = [(''id'', ''1'')], query = [], body = JStr ''Design''\<rparr>
        sample_env sample_db =
      (Responded
         \<lparr>status = 201,
            body_of = JObj [(''message'', JStr ''Job category created successfully''),
                            (''category'', JObj [(''id'', JNum 2), (''title'', JStr ''Design'')])]\<rparr>,
       sample_db\<lparr>jobCategory_tbl := [[(''id'', JNum 1), (''title'', JStr ''Engineering'')],
                                      [(''id'', JNum 2), (''title'', JStr ''Design'')]],
                 jobCategory_seq := 3\<rparr>)
   \<and> deleteJobCategory
        \<lparr>user = None, params = [(''id'', ''1'')], query = [], body = JStr ''Design''\<rparr>
        sample_env sample_db =
      (Responded
         \<lparr>status = 200,
            body_of = JObj [(''message'', JStr ''Job category deleted successfully''),
                            (''category'', JObj [(''id'', JNum 1), (''title'', JStr ''Engineering'')])]\<rparr>,
       sample_db\<lparr>jobCategory_tbl := []\<rparr>)"
  by code_simp

section \<open>Title collisions on create\<close>

lemma createJobCategory_collision:
  assumes "JobCategorySchema sc (body req) = Inr title"
      and "holds ''title'' (JStr title) (jobCategory_tbl d)"
  shows "fst (createJobCategory sc req e d) =
           reply 500 (JObj [(''message'', JStr ''Internal server error'')])"
  using assms
  by (simp add: createJobCategory_def insert_titled_def new_on_caught_def
        split: option.split)

lemma createJobCategory_never_409:
  "fst (createJobCategory sc req e d) \<noteq> reply 409 b"
  by (simp add: createJobCategory_def insert_titled_def new_on_caught_def reply_def
        split: option.split sum.split)

text \<open>
  C3. The claim asks for 409 when the title of a new category is already stored. The code
  answers 500: with the category \<^verbatim>\<open>Engineering\<close> stored, a create request for the title
  \<^verbatim>\<open>Engineering\<close> is answered 500 and stores nothing.
\<close>

theorem createJobCategory_duplicate_title_500:
  "holds ''title'' (JStr ''Engineering'') (jobCategory_tbl sample_db)
   \<and> fst (createJobCategory sample_schemas
             \<lparr>user = Some \<lparr>user_id = ''u1'', role = ''admin''\<rparr>, params = [], query = [],
                body = JStr ''Engineering''\<rparr> sample_env sample_db) =
       reply 500 (JObj [(''message'', JStr ''Internal server error'')])
   \<and> jobCategory_tbl (snd (createJobCategory sample_schemas
             \<lparr>user = Some \<lparr>user_id = ''u1'', role = ''admin''\<rparr>, params = [], query = [],
                body = JStr ''Engineering''\<rparr> sample_env sample_db)) =
       jobCategory_tbl sample_db"
  by (simp add: createJobCategory_def sample_schemas_def sample_env_def sample_db_def fault_def
        insert_titled_def holds_def get_def new_on_caught_def)

section \<open>Approving twice\<close>

lemma apply_set_single: "apply_set [(c, v)] r = assign c v r"
  by (simp add: apply_set_def)

lemma eq_assign_other: "c \<noteq> k \<Longrightarrow> eq k w (assign c v r) = eq k w r"
  by (simp add: eq_def get_assign)

lemma approve_filter:
  "filter (eq ''id'' i) (map (\<lambda>r. if eq ''id'' i r then assign ''isApproved'' v r else r) t) =
   map (assign ''isApproved'' v) (filter (eq ''id'' i) t)"
  by (induction t) (auto simp: eq_assign_other)

lemma approve_map_idem:
  "map (\<lambda>r. if eq ''id'' i r then assign ''isApproved'' v r else r)
     (map (\<lambda>r. if eq ''id'' i r then assign ''isApproved'' v r else r) t) =
   map (\<lambda>r. if eq ''id'' i r then assign ''isApproved'' v r else r) t"
  by (induction t) (auto simp: eq_assign_other assign_idem)

lemma holds_filter: "holds c v t \<Longrightarrow> \<exists>r rs. filter (eq c v) t = r # rs \<and> get r c = Some v"
proof -
  assume "holds c v t"
  then obtain x where "x \<in> set t" "eq c v x" by (auto simp: holds_def eq_def)
  then have "filter (eq c v) t \<noteq> []" by (auto simp: filter_empty_conv)
  then obtain r rs where rr: "filter (eq c v) t = r # rs" by (cases "filter (eq c v) t") auto
  then have "r \<in> set (filter (eq c v) t)" by simp
  then have "eq c v r" by simp
  with rr show ?thesis by (auto simp: eq_def)
qed

text \<open>
  C6. For a stored job id (route parameters are non-empty) and an admin principal, two
  calls of \<^verbatim>\<open>approveJob\<close> in succession both answer 200. The first call leaves the
  stored state as it was but for \<^verbatim>\<open>isApproved = true\<close> on the jobs with that id; the
  job is still stored and has \<^verbatim>\<open>isApproved = true\<close>; and the second call leaves the
  stored state exactly as the first left it.
\<close>

theorem approveJob_twice:
  assumes "user req = Some u" and "toLocaleLowerCase (role u) = ''admin''"
      and "map_of (params req) ''jobId'' = Some j" and "j \<noteq> []"
      and "holds ''id'' (JStr j) (job_tbl d)"
      and "fault e1 0 = None" and "fault e2 0 = None"
  shows "\<exists>d1.
           d1 = d\<lparr>job_tbl :=
                    map (\<lambda>r. if get r ''id'' = Some (JStr j)
                              then assign ''isApproved'' (JBool True) r else r) (job_tbl d)\<rparr>
         \<and> approveJob req e1 d =
             (reply 200 (JObj [(''message'', JStr ''Job approved successfully''),
                               (''jobId'', JStr j)]), d1)
         \<and> approveJob req e2 d1 =
             (reply 200 (JObj [(''message'', JStr ''Job approved successfully''),
                               (''jobId'', JStr j)]), d1)
         \<and> holds ''id'' (JStr j) (job_tbl d1)
         \<and> (\<forall>r \<in> set (job_tbl d1).
               get r ''id'' = Some (JStr j) \<longrightarrow> get r ''isApproved'' = Some (JBool True))"
proof -
  let ?f = "\<lambda>r. if eq ''id'' (JStr j) r then assign ''isApproved'' (JBool True) r else r"
  let ?d1 = "d\<lparr>job_tbl := map ?f (job_tbl d)\<rparr>"
  let ?ok = "reply 200 (JObj [(''message'', JStr ''Job approved successfully''),
                               (''jobId'', JStr j)])"
  have auth: "\<not> unauthorized_locale req"
    using assms(1,2) by (simp add: unauthorized_locale_def)
  have tr: "truthy (map_of (params req) ''jobId'') = Some j"
    using assms(3,4) by (simp add: truthy_def)
  from holds_filter[OF assms(5)] obtain r rs where
    f: "filter (eq ''id'' (JStr j)) (job_tbl d) = r # rs" and rid: "get r ''id'' = Some (JStr j)"
    by blast
  have first: "approveJob req e1 d = (?ok, ?d1)"
    using auth tr f rid assms(6)
    by (simp add: approveJob_def run_def update_where_def apply_set_single opt_col_def get_assign)
  have f2: "filter (eq ''id'' (JStr j)) (map ?f (job_tbl d)) =
              assign ''isApproved'' (JBool True) r # map (assign ''isApproved'' (JBool True)) rs"
    using f by (simp add: approve_filter)
  have second: "approveJob req e2 ?d1 = (?ok, ?d1)"
    using auth tr f2 rid assms(7)
    by (simp add: approveJob_def run_def update_where_def apply_set_single opt_col_def get_assign
          approve_map_idem assign_idem)
  have appr: "\<forall>x \<in> set (job_tbl ?d1).
               get x ''id'' = Some (JStr j) \<longrightarrow> get x ''isApproved'' = Some (JBool True)"
    by (auto simp: get_assign eq_def)
  from f2 have "assign ''isApproved'' (JBool True) r
                  \<in> set (filter (eq ''id'' (JStr j)) (map ?f (job_tbl d)))"
    by simp
  then have still: "holds ''id'' (JStr j) (job_tbl ?d1)"
    by (auto simp: holds_def eq_def)
  have shape: "?d1 = d\<lparr>job_tbl :=
                    map (\<lambda>r. if get r ''id'' = Some (JStr j)
                              then assign ''isApproved'' (JBool True) r else r) (job_tbl d)\<rparr>"
    by (simp add: eq_def)
  from shape first second still appr show ?thesis by blast
qed

theorem approveJob_twice_witness:
  "holds ''id'' (JStr ''123e4567-e89b-12d3-a456-426614174000'') (job_tbl sample_db)
   \<and> toLocaleLowerCase ''Admin'' = ''admin''
   \<and> approveJob \<lparr>user = Some \<lparr>user_id = ''u1'', role = ''Admin''\<rparr>,
                  params = [(''jobId'', ''123e4567-e89b-12d3-a456-426614174000'')],
                  query = [], body = JNull\<rparr> sample_env sample_db =
        (reply 200 (JObj [(''message'', JStr ''Job approved successfully''),
                          (''jobId'', JStr ''123e4567-e89b-12d3-a456-426614174000'')]),
         sample_db\<lparr>job_tbl :=
           [[(''id'', JStr ''123e4567-e89b-12d3-a456-426614174000''), (''title'', JStr ''Dev''),
             (''isApproved'', JBool True)],
            [(''id'', JStr ''j2''), (''title'', JStr ''Ops''), (''isApproved'', JBool True)]]\<rparr>)
   \<and> approveJob \<lparr>user = Some \<lparr>user_id = ''u1'', role = ''Admin''\<rparr>,
                  params = [(''jobId'', ''123e4567-e89b-12d3-a456-426614174000'')],
                  query = [], body = JNull\<rparr> sample_env
        (sample_db\<lparr>job_tbl :=
           [[(''id'', JStr ''123e4567-e89b-12d3-a456-426614174000''), (''title'', JStr ''Dev''),
             (''isApproved'', JBool True)],
            [(''id'', JStr ''j2''), (''title'', JStr ''Ops''), (''isApproved'', JBool True)]]\<rparr>) =
        (reply 200 (JObj [(''message'', JStr ''Job approved successfully''),
                          (''jobId'', JStr ''123e4567-e89b-12d3-a456-426614174000'')]),
         sample_db\<lparr>job_tbl :=
           [[(''id'', JStr ''123e4567-e89b-12d3-a456-426614174000''), (''title'', JStr ''Dev''),
             (''isApproved'', JBool True)],
            [(''id'', JStr ''j2''), (''title'', JStr ''Ops''), (''isApproved'', JBool True)]]\<rparr>)
   \<and> holds ''id'' (JStr ''123e4567-e89b-12d3-a456-426614174000'')
        (job_tbl (sample_db\<lparr>job_tbl :=
           [[(''id'', JStr ''123e4567-e89b-12d3-a456-426614174000''), (''title'', JStr ''Dev''),
             (''isApproved'', JBool True)],
            [(''id'', JStr ''j2''), (''title'', JStr ''Ops''), (''isApproved'', JBool True)]]\<rparr>))"
proof -
  let ?req = "\<lparr>user = Some \<lparr>user_id = ''u1'', role = ''Admin''\<rparr>,
               params = [(''jobId'', ''123e4567-e89b-12d3-a456-426614174000'')],
               query = [], body = JNull\<rparr>"
  let ?j = "''123e4567-e89b-12d3-a456-426614174000''"
  let ?d1 = "sample_db\<lparr>job_tbl :=
           [[(''id'', JStr ?j), (''title'', JStr ''Dev''), (''isApproved'', JBool True)],
            [(''id'', JStr ''j2''), (''title'', JStr ''Ops''), (''isApproved'', JBool True)]]\<rparr>"
  have h1: "user ?req = Some \<lparr>user_id = ''u1'', role = ''Admin''\<rparr>" by simp
  have lc: "toLocaleLowerCase ''Admin'' = ''admin''"
    by code_simp
  then have h2: "toLocaleLowerCase (role \<lparr>user_id = ''u1'', role = ''Admin''\<rparr>) = ''admin''"
    by simp
  have h3: "map_of (params ?req) ''jobId'' = Some ?j"
    by simp
  have h4: "?j \<noteq> []" by simp
  have h5: "holds ''id'' (JStr ?j) (job_tbl sample_db)"
    by (simp add: holds_def sample_db_def get_def)
  have h6: "fault sample_env 0 = None" by (simp add: fault_def sample_env_def)
  have d1: "sample_db\<lparr>job_tbl :=
              map (\<lambda>r. if get r ''id'' = Some (JStr ?j)
                        then assign ''isApproved'' (JBool True) r else r) (job_tbl sample_db)\<rparr> = ?d1"
    by (simp add: sample_db_def get_def)
  from approveJob_twice [OF h1 h2 h3 h4 h5 h6 h6] d1
  have "approveJob ?req sample_env sample_db =
          (reply 200 (JObj [(''message'', JStr ''Job approved successfully''),
                            (''jobId'', JStr ?j)]), ?d1)
      \<and> approveJob ?req sample_env ?d1 =
          (reply 200 (JObj [(''message'', JStr ''Job approved successfully''),
                            (''jobId'', JStr ?j)]), ?d1)
      \<and> holds ''id'' (JStr ?j) (job_tbl ?d1)"
    by metis
  with h5 lc show ?thesis by simp
qed

section \<open>Creating a category and reading it back\<close>

lemma not_holds_filter: "\<not> holds c v t \<Longrightarrow> filter (eq c v) t = []"
  by (auto simp: holds_def eq_def filter_empty_conv)

text \<open>
  C7. When \<^verbatim>\<open>createJobCategory\<close>, given a body that carries the title \<open>T\<close>, answers 201,
  the response holds the new category with an id \<open>i\<close> and the title \<open>T\<close>, and
  \<^verbatim>\<open>getCategoryById\<close>, called on the resulting state with a route parameter that reads as
  \<open>i\<close>, answers 200 with that same category, whose title is \<open>T\<close>.
\<close>

theorem category_round_trip:
  assumes "JobCategorySchema sc (body req) = Inr T"
      and "createJobCategory sc req e d = (Responded r, d')"
      and "status r = 201"
  shows "\<exists>i. body_of r = JObj [(''message'', JStr ''Job category created successfully''),
                               (''category'', JObj [(''id'', JNum i), (''title'', JStr T)])]
           \<and> (\<forall>req' e'. parseInt_opt (map_of (params req') ''id'') = Some i
                  \<longrightarrow> fault e' 0 = None
                  \<longrightarrow> getCategoryById req' e' d' =
                       (reply 200 (JObj [(''category'',
                                          JObj [(''id'', JNum i), (''title'', JStr T)])]), d'))"
proof -
  let ?i = "jobCategory_seq d"
  let ?new = "[(''id'', JNum ?i), (''title'', JStr T)]"
  from assms have nf: "fault e 0 = None"
    by (auto simp: createJobCategory_def reply_def new_on_caught_def split: option.splits)
  from assms nf have ok: "\<not> holds ''id'' (JNum ?i) (jobCategory_tbl d)"
    by (auto simp: createJobCategory_def reply_def new_on_caught_def insert_titled_def
          split: if_splits)
  from assms nf ok have ok2: "\<not> holds ''title'' (JStr T) (jobCategory_tbl d)"
    by (auto simp: createJobCategory_def reply_def new_on_caught_def insert_titled_def
          split: if_splits)
  from assms nf ok ok2 have
    b: "body_of r = JObj [(''message'', JStr ''Job category created successfully''),
                          (''category'', JObj ?new)]"
    and d': "d' = d\<lparr>jobCategory_tbl := jobCategory_tbl d @ [?new],
                    jobCategory_seq := ?i + 1\<rparr>"
    by (auto simp: createJobCategory_def reply_def insert_titled_def)
  have sel: "select_where (eq ''id'' (JNum ?i)) (jobCategory_tbl d') = [?new]"
    using not_holds_filter[OF ok] by (simp add: d' select_where_def eq_def get_def)
  have "getCategoryById req' e' d' = (reply 200 (JObj [(''category'', JObj ?new)]), d')"
    if "parseInt_opt (map_of (params req') ''id'') = Some ?i" and "fault e' 0 = None"
    for req' e'
    using that sel by (simp add: getCategoryById_def run_def bind_int_def)
  with b show ?thesis by blast
qed

theorem category_round_trip_witness:
  "parseInt_opt (map_of (params \<lparr>user = None, params = [(''id'', ''2'')], query = [], body = JNull\<rparr>) ''id'') = Some 2
   \<and> createJobCategory sample_schemas
        \<lparr>user = None, params = [], query = [], body = JStr ''Design''\<rparr> sample_env sample_db =
      (Responded \<lparr>status = 201,
                  body_of = JObj [(''message'', JStr ''Job category created successfully''),
                                  (''category'', JObj [(''id'', JNum 2), (''title'', JStr ''Design'')])]\<rparr>,
       sample_db\<lparr>jobCategory_tbl := jobCategory_tbl sample_db @ [[(''id'', JNum 2), (''title'', JStr ''Design'')]],
                 jobCategory_seq := 3\<rparr>)
   \<and> getCategoryById \<lparr>user = None, params = [(''id'', ''2'')], query = [], body = JNull\<rparr> sample_env
        (sample_db\<lparr>jobCategory_tbl := jobCategory_tbl sample_db @ [[(''id'', JNum 2), (''title'', JStr ''Design'')]],
                 jobCategory_seq := 3\<rparr>) =
      (reply 200 (JObj [(''category'', JObj [(''id'', JNum 2), (''title'', JStr ''Design'')])]),
       sample_db\<lparr>jobCategory_tbl := jobCategory_tbl sample_db @ [[(''id'', JNum 2), (''title'', JStr ''Design'')]],
                 jobCategory_seq := 3\<rparr>)"
proof -
  let ?req = "\<lparr>user = None, params = [], query = [], body = JStr ''Design''\<rparr>"
  let ?req' = "\<lparr>user = None, params = [(''id'', ''2'')], query = [], body = JNull\<rparr>"
  let ?r = "\<lparr>status = 201,
             body_of = JObj [(''message'', JStr ''Job category created successfully''),
                             (''category'', JObj [(''id'', JNum 2), (''title'', JStr ''Design'')])]\<rparr>"
  let ?d' = "sample_db\<lparr>jobCategory_tbl := jobCategory_tbl sample_db @ [[(''id'', JNum 2), (''title'', JStr ''Design'')]],
                 jobCategory_seq := 3\<rparr>"
  have h1: "JobCategorySchema sample_schemas (body ?req) = Inr ''Design''"
    by (simp add: sample_schemas_def)
  have h2: "createJobCategory sample_schemas ?req sample_env sample_db = (Responded ?r, ?d')"
    by (simp add: createJobCategory_def sample_schemas_def sample_env_def sample_db_def fault_def
          insert_titled_def holds_def get_def reply_def)
  have h3: "status ?r = 201" by simp
  have p: "parseInt_opt (map_of (params ?req') ''id'') = Some 2"
    by (simp add: parseInt_opt_def parseInt_def is_space_def is_digit_def digits_value_def)
  have f: "fault sample_env 0 = None" by (simp add: fault_def sample_env_def)
  from category_round_trip [OF h1 h2 h3] p f
  have "getCategoryById ?req' sample_env ?d' =
          (reply 200 (JObj [(''category'', JObj [(''id'', JNum 2), (''title'', JStr ''Design'')])]), ?d')"
    by auto
  with p h2 show ?thesis by simp
qed

section \<open>The public listing\<close>

lemma and_all_head: "and_all (Inr c # cs) = Inr p \<Longrightarrow> p x \<Longrightarrow> c x"
  by (auto simp: and_all_def split: list.splits)

lemma selected_approved:
  assumes "selected req d = Inr rows" and "x \<in> set rows"
  shows "eq ''isApproved'' (JBool True) (j_job x)"
proof -
  obtain rest where c: "conditions req = Inr (\<lambda>x. eq ''isApproved'' (JBool True) (j_job x)) # rest"
    by (simp add: conditions_def)
  from assms(1) c obtain p where p: "and_all (conditions req) = Inr p"
    and rows: "rows = filter p (job_joins d)"
    by (auto simp: selected_def split: sum.splits)
  from assms(2) rows have "p x" by simp
  with p c and_all_head show ?thesis by metis
qed

lemma limit_offset_subset: "limit_offset l off xs = Inr ys \<Longrightarrow> set ys \<subseteq> set xs"
  by (auto simp: limit_offset_def split: if_splits dest: in_set_takeD in_set_dropD)

text \<open>What a 200 answer of \<^verbatim>\<open>getJobs\<close> is made of.\<close>

lemma getJobs_200:
  assumes "getJobs req e d = (Responded r, d')" and "status r = 200"
  shows "\<exists>rows result.
           selected req d = Inr rows
         \<and> limit_offset (limit req) ((page req - 1) * limit req) rows = Inr result
         \<and> result \<noteq> []
         \<and> body_of r =
             JObj [(''data'', JArr (map listed result)),
                   (''pagination'',
                    JObj [(''currentPage'', JNum (page req)),
                          (''pageSize'', JNum (limit req)),
                          (''totalCount'', JStr (count_star rows)),
                          (''totalPages'', Math_ceil_div (count_star rows) (limit req))])]"
  using assms
  by (auto simp: getJobs_def Let_def run_def reply_def
        split: sum.splits option.splits if_splits)

text \<open>
  C9. Every job row in a 200 answer of \<^verbatim>\<open>getJobs\<close> has \<^verbatim>\<open>isApproved = true\<close>, whatever
  filters the query string carries.
\<close>

theorem getJobs_only_approved:
  assumes "getJobs req e d = (Responded r, d')" and "status r = 200"
  shows "\<exists>result pagination.
           body_of r = JObj [(''data'', JArr (map listed result)), (''pagination'', pagination)]
         \<and> (\<forall>x \<in> set result. get (j_job x) ''isApproved'' = Some (JBool True))"
proof -
  from getJobs_200[OF assms] obtain rows result where
    s: "selected req d = Inr rows"
    and l: "limit_offset (limit req) ((page req - 1) * limit req) rows = Inr result"
    and b: "body_of r =
             JObj [(''data'', JArr (map listed result)),
                   (''pagination'',
                    JObj [(''currentPage'', JNum (page req)),
                          (''pageSize'', JNum (limit req)),
                          (''totalCount'', JStr (count_star rows)),
                          (''totalPages'', Math_ceil_div (count_star rows) (limit req))])]"
    by blast
  have "get (j_job x) ''isApproved'' = Some (JBool True)" if "x \<in> set result" for x
  proof -
    from that limit_offset_subset[OF l] have "x \<in> set rows" by blast
    from selected_approved[OF s this] show ?thesis by (simp add: eq_def)
  qed
  with b show ?thesis by blast
qed


theorem getJobs_only_approved_witness:
  "getJobs \<lparr>user = None, params = [], query = [], body = JNull\<rparr> sample_env sample_db =
     (Responded
        \<lparr>status = 200,
           body_of =
             JObj [(''data'',
                    JArr [JObj [(''job'', JObj [(''id'', JStr ''j2''), (''title'', JStr ''Ops''),
                                               (''isApproved'', JBool True)]),
                                (''category'', JNull), (''level'', JNull),
                                (''companyName'', JNull)]]),
                   (''pagination'',
                    JObj [(''currentPage'', JNum 1), (''pageSize'', JNum 10),
                          (''totalCount'', JStr ''1''), (''totalPages'', JNum 1)])]\<rparr>,
      sample_db)
   \<and> (\<exists>result pagination.
          JObj [(''data'',
                 JArr [JObj [(''job'', JObj [(''id'', JStr ''j2''), (''title'', JStr ''Ops''),
                                            (''isApproved'', JBool True)]),
                             (''category'', JNull), (''level'', JNull),
                             (''companyName'', JNull)]]),
                (''pagination'',
                 JObj [(''currentPage'', JNum 1), (''pageSize'', JNum 10),
                       (''totalCount'', JStr ''1''), (''totalPages'', JNum 1)])] =
          JObj [(''data'', JArr (map listed result)), (''pagination'', pagination)]
        \<and> (\<forall>x \<in> set result. get (j_job x) ''isApproved'' = Some (JBool True)))"
proof -
  let ?req = "\<lparr>user = None, params = [], query = [], body = JNull\<rparr>"
  let ?r = "\<lparr>status = 200,
           body_of =
             JObj [(''data'',
                    JArr [JObj [(''job'', JObj [(''id'', JStr ''j2''), (''title'', JStr ''Ops''),
                                               (''isApproved'', JBool True)]),
                                (''category'', JNull), (''level'', JNull),
                                (''companyName'', JNull)]]),
                   (''pagination'',
                    JObj [(''currentPage'', JNum 1), (''pageSize'', JNum 10),
                          (''totalCount'', JStr ''1''), (''totalPages'', JNum 1)])]\<rparr>"
  have h1: "getJobs ?req sample_env sample_db = (Responded ?r, sample_db)"
    by code_simp
  have h2: "status ?r = 200" by simp
  from getJobs_only_approved [OF h1 h2] h1 show ?thesis by simp
qed

section \<open>Pagination\<close>

lemma decimal_not_Nil: "decimal n \<noteq> []"
  by (subst decimal.simps) simp

lemma is_digit_char_of: "(d::nat) < 10 \<Longrightarrow> is_digit (char_of (48 + d))"
  by (simp add: is_digit_def)

lemma decimal_digits: "list_all is_digit (decimal n)"
proof (induction n rule: decimal.induct)
  case (1 n)
  show ?case
  proof (cases "n < 10")
    case True
    then show ?thesis by (subst decimal.simps) (simp add: is_digit_char_of)
  next
    case False
    with "1" have "list_all is_digit (decimal (n div 10))" by simp
    with False show ?thesis by (subst decimal.simps) (simp add: is_digit_char_of)
  qed
qed

lemma digits_value_snoc:
  "digits_value (xs @ [c]) = 10 * digits_value xs + (int (of_char c) - 48)"
  by (simp add: digits_value_def)

lemma digits_value_decimal: "digits_value (decimal n) = int n"
proof (induction n rule: decimal.induct)
  case (1 n)
  show ?case
  proof (cases "n < 10")
    case True
    then show ?thesis by (subst decimal.simps) (simp add: digits_value_def)
  next
    case False
    with "1" have ih: "digits_value (decimal (n div 10)) = int (n div 10)" by simp
    have "10 * int (n div 10) + int (n mod 10) = int n"
      by (simp add: zdiv_int zmod_int)
    with False ih show ?thesis
      by (subst decimal.simps) (simp add: digits_value_snoc)
  qed
qed

lemma ToNumber_count_star: "ToNumber (count_star rows) = Some (int (length rows))"
  by (simp add: ToNumber_def count_star_def decimal_not_Nil decimal_digits digits_value_decimal)

text \<open>
  C4, as stated, fails in its second half: \<^verbatim>\<open>parseInt(pageIndex, 10) || 1\<close> replaces a
  requested page index of 0 by 1. A caller asking for page 0 gets a 200 answer whose
  \<^verbatim>\<open>currentPage\<close> is 1.
\<close>

theorem getJobs_currentPage_counterexample:
  "map_of (query \<lparr>user = None, params = [], query = [(''pageIndex'', ''0'')], body = JNull\<rparr>)
     ''pageIndex'' = Some ''0''
   \<and> parseInt ''0'' = Some 0
   \<and> getJobs \<lparr>user = None, params = [], query = [(''pageIndex'', ''0'')], body = JNull\<rparr>
        sample_env sample_db =
     (Responded
        \<lparr>status = 200,
           body_of =
             JObj [(''data'',
                    JArr [JObj [(''job'', JObj [(''id'', JStr ''j2''), (''title'', JStr ''Ops''),
                                               (''isApproved'', JBool True)]),
                                (''category'', JNull), (''level'', JNull),
                                (''companyName'', JNull)]]),
                   (''pagination'',
                    JObj [(''currentPage'', JNum 1), (''pageSize'', JNum 10),
                          (''totalCount'', JStr ''1''), (''totalPages'', JNum 1)])]\<rparr>,
      sample_db)"
  by code_simp

text \<open>
  A negative page size is left out of the statement: the answer is 200, \<^verbatim>\<open>pageSize\<close>
  echoes the negative number and \<^verbatim>\<open>totalPages\<close> is the ceiling of a negative quotient.
\<close>

lemma getJobs_negative_pageSize:
  "getJobs \<lparr>user = None, params = [], query = [(''pageSize'', ''-5'')], body = JNull\<rparr>
     sample_env sample_db =
     (Responded
        \<lparr>status = 200,
           body_of =
             JObj [(''data'',
                    JArr [JObj [(''job'', JObj [(''id'', JStr ''j2''), (''title'', JStr ''Ops''),
                                               (''isApproved'', JBool True)]),
                                (''category'', JNull), (''level'', JNull),
                                (''companyName'', JNull)]]),
                   (''pagination'',
                    JObj [(''currentPage'', JNum 1), (''pageSize'', JNum (- 5)),
                          (''totalCount'', JStr ''1''), (''totalPages'', JNum 0)])]\<rparr>,
      sample_db)"
  by code_simp

lemma or_default_nonzero: "dflt \<noteq> 0 \<Longrightarrow> or_default n dflt \<noteq> 0"
  by (simp add: or_default_def split: option.split)

lemma limit_nonzero: "limit req \<noteq> 0"
  by (simp add: limit_def or_default_nonzero)

text \<open>
  C4, amended. In every 200 answer of \<^verbatim>\<open>getJobs\<close> the pagination object satisfies
  \<^verbatim>\<open>totalPages = ceil(totalCount / pageSize)\<close>, with \<^verbatim>\<open>totalCount\<close> the count as the
  driver hands it over (a decimal string, read as the number it spells) and \<^verbatim>\<open>pageSize\<close>
  never 0; \<^verbatim>\<open>currentPage\<close> is the requested page index when that reads (by
  \<^verbatim>\<open>parseInt\<close>) as a number other than 0, and 1 when the index is absent, unreadable
  or 0.
\<close>

theorem getJobs_pagination:
  assumes "getJobs req e d = (Responded r, d')" and "status r = 200"
  shows "\<exists>data currentPage pageSize totalCount count.
           body_of r =
             JObj [(''data'', data),
                   (''pagination'',
                    JObj [(''currentPage'', JNum currentPage),
                          (''pageSize'', JNum pageSize),
                          (''totalCount'', JStr totalCount),
                          (''totalPages'',
                           JNum \<lceil>real_of_int count / real_of_int pageSize\<rceil>)])]
         \<and> ToNumber totalCount = Some count
         \<and> pageSize \<noteq> 0
         \<and> (case map_of (query req) ''pageIndex'' of
               None \<Rightarrow> currentPage = 1
             | Some s \<Rightarrow>
                 (case parseInt s of
                    None \<Rightarrow> currentPage = 1
                  | Some n \<Rightarrow> if n = 0 then currentPage = 1 else currentPage = n))"
proof -
  from getJobs_200[OF assms] obtain rows :: "joined list" and result where
    b: "body_of r =
             JObj [(''data'', JArr (map listed result)),
                   (''pagination'',
                    JObj [(''currentPage'', JNum (page req)),
                          (''pageSize'', JNum (limit req)),
                          (''totalCount'', JStr (count_star rows)),
                          (''totalPages'', Math_ceil_div (count_star rows) (limit req))])]"
    by blast
  have tp: "Math_ceil_div (count_star rows) (limit req) =
              JNum \<lceil>real_of_int (int (length rows)) / real_of_int (limit req)\<rceil>"
    by (simp add: Math_ceil_div_def ToNumber_count_star)
  have cur: "(case map_of (query req) ''pageIndex'' of
               None \<Rightarrow> page req = 1
             | Some s \<Rightarrow>
                 (case parseInt s of
                    None \<Rightarrow> page req = 1
                  | Some n \<Rightarrow> if n = 0 then page req = 1 else page req = n))"
  proof -
    have "parseInt ''1'' = Some 1" by code_simp
    then show ?thesis
      by (simp add: page_def or_default_def split: option.split)
  qed
  from b tp have
    "body_of r =
       JObj [(''data'', JArr (map listed result)),
             (''pagination'',
              JObj [(''currentPage'', JNum (page req)),
                    (''pageSize'', JNum (limit req)),
                    (''totalCount'', JStr (count_star rows)),
                    (''totalPages'',
                     JNum \<lceil>real_of_int (int (length rows)) / real_of_int (limit req)\<rceil>)])]"
    by simp
  with ToNumber_count_star[of rows] limit_nonzero[of req] cur show ?thesis
    by blast
qed

theorem getJobs_pagination_witness:
  "getJobs \<lparr>user = None, params = [], query = [(''pageIndex'', ''1''), (''pageSize'', ''3'')],
              body = JNull\<rparr> sample_env sample_db =
     (Responded
        \<lparr>status = 200,
           body_of =
             JObj [(''data'',
                    JArr [JObj [(''job'', JObj [(''id'', JStr ''j2''), (''title'', JStr ''Ops''),
                                               (''isApproved'', JBool True)]),
                                (''category'', JNull), (''level'', JNull),
                                (''companyName'', JNull)]]),
                   (''pagination'',
                    JObj [(''currentPage'', JNum 1), (''pageSize'', JNum 3),
                          (''totalCount'', JStr ''1''), (''totalPages'', JNum 1)])]\<rparr>,
      sample_db)
   \<and> ToNumber ''1'' = Some 1
   \<and> \<lceil>real_of_int 1 / real_of_int 3\<rceil> = 1"
proof -
  let ?req = "\<lparr>user = None, params = [], query = [(''pageIndex'', ''1''), (''pageSize'', ''3'')],
              body = JNull\<rparr>"
  let ?r = "\<lparr>status = 200,
           body_of =
             JObj [(''data'',
                    JArr [JObj [(''job'', JObj [(''id'', JStr ''j2''), (''title'', JStr ''Ops''),
                                               (''isApproved'', JBool True)]),
                                (''category'', JNull), (''level'', JNull),
                                (''companyName'', JNull)]]),
                   (''pagination'',
                    JObj [(''currentPage'', JNum 1), (''pageSize'', JNum 3),
                          (''totalCount'', JStr ''1''), (''totalPages'', JNum 1)])]\<rparr>"
  have h1: "getJobs ?req sample_env sample_db = (Responded ?r, sample_db)"
    by code_simp
  have h2: "status ?r = 200" by simp
  from getJobs_pagination [OF h1 h2] obtain count where
    "ToNumber ''1'' = Some count" and "(1::int) = \<lceil>real_of_int count / real_of_int 3\<rceil>"
    by auto
  then have "ToNumber ''1'' = Some 1 \<and> \<lceil>real_of_int 1 / real_of_int 3\<rceil> = 1"
    by (simp add: ToNumber_def is_digit_def digits_value_def)
  with h1 show ?thesis by simp
qed

section \<open>What an update writes\<close>

lemma apply_set_Nil: "apply_set [] r = r"
  by (simp add: apply_set_def)

lemma apply_set_Cons: "apply_set ((c, v) # s) r = apply_set s (assign c v r)"
  by (simp add: apply_set_def)

lemma apply_set_append: "apply_set (s @ t) r = apply_set t (apply_set s r)"
  by (simp add: apply_set_def)

lemma update_where_shape:
  assumes "update_where s (eq c v) t = (t', u # us)"
  shows "t' = map (\<lambda>x. if get x c = Some v then apply_set s x else x) t
       \<and> (\<exists>old rest. filter (\<lambda>x. get x c = Some v) t = old # rest \<and> u = apply_set s old)
       \<and> u \<in> set t'"
proof -
  have p: "eq c v = (\<lambda>x. get x c = Some v)"
    by (rule ext) (simp add: eq_def)
  from assms have t': "t' = map (\<lambda>x. if get x c = Some v then apply_set s x else x) t"
    and f: "map (apply_set s) (filter (\<lambda>x. get x c = Some v) t) = u # us"
    by (auto simp: update_where_def p)
  from f obtain old rest where o: "filter (\<lambda>x. get x c = Some v) t = old # rest"
    and u: "u = apply_set s old"
    by (cases "filter (\<lambda>x. get x c = Some v) t") auto
  from o have "old \<in> set (filter (\<lambda>x. get x c = Some v) t)" by simp
  then have "old \<in> set t" and "get old c = Some v" by auto
  then have "u \<in> set t'" unfolding t' u by force
  with t' o u show ?thesis by blast
qed

lemma updateJob_200:
  assumes "updateJob sc req e d = (Responded r, d')" and "status r = 200"
  shows "\<exists>jobId jobData t' u us.
           map_of (params req) ''jobId'' = Some jobId
         \<and> JobSchema sc (body req) = Inr jobData
         \<and> update_where (jobData @ [(''updatedAt'', JDate (now e))])
              (eq ''id'' (JStr jobId)) (job_tbl d) = (t', u # us)
         \<and> body_of r = JObj u \<and> d' = d\<lparr>job_tbl := t'\<rparr>"
  using assms
  by (auto simp: updateJob_def reply_def run_def
        split: if_splits option.splits sum.splits list.splits)

lemma upadteJobCategory_200:
  assumes "upadteJobCategory sc req e d = (Responded r, d')" and "status r = 200"
  shows "\<exists>n title t' u us.
           parseInt_opt (map_of (params req) ''id'') = Some n
         \<and> JobCategorySchema sc (body req) = Inr title
         \<and> update_where [(''title'', JStr title)] (eq ''id'' (JNum n)) (jobCategory_tbl d) =
             (t', u # us)
         \<and> body_of r = JObj [(''message'', JStr ''Job category updated successfully''),
                              (''category'', JObj u)]
         \<and> d' = d\<lparr>jobCategory_tbl := t'\<rparr>"
  using assms
  by (auto simp: upadteJobCategory_def reply_def run_def update_titled_def Let_def bind_int_def
        split: if_splits option.splits sum.splits list.splits prod.splits)

lemma updateJobLevel_200:
  assumes "updateJobLevel sc req e d = (Responded r, d')" and "status r = 200"
  shows "\<exists>n title t' u us.
           parseInt_opt (map_of (params req) ''id'') = Some n
         \<and> JobCategorySchema sc (body req) = Inr title
         \<and> update_where [(''title'', JStr title)] (eq ''id'' (JNum n)) (jobLevel_tbl d) =
             (t', u # us)
         \<and> body_of r = JObj [(''message'', JStr ''Job level updated successfully''),
                              (''level'', JObj u)]
         \<and> d' = d\<lparr>jobLevel_tbl := t'\<rparr>"
  using assms
  by (auto simp: updateJobLevel_def reply_def run_def update_titled_def Let_def bind_int_def
        split: if_splits option.splits sum.splits list.splits prod.splits)

lemma updateUserAsync_Some:
  assumes "updateUserAsync e i fullName levelId categoryId tags d = (Inr (Some u), d')"
  shows "\<exists>s t' us.
           update_where (s @ [(''updatedAt'', JDate (now e))])
             (eq ''id'' (JStr i)) (user_tbl d) = (t', u # us)
         \<and> d' = d\<lparr>user_tbl := t'\<rparr>"
proof -
  let ?s = "[(''fullName'', JStr fullName), (''levelId'', JNum levelId),
             (''categoryId'', JNum categoryId)]
            @ (case tags of None \<Rightarrow> [] | Some t \<Rightarrow> [(''tags'', JStr t)])"
  from assms have
    "\<exists>t' us. update_where (?s @ [(''updatedAt'', JDate (now e))])
             (eq ''id'' (JStr i)) (user_tbl d) = (t', u # us) \<and> d' = d\<lparr>user_tbl := t'\<rparr>"
    by (auto simp: updateUserAsync_def Let_def run_def first_row_def
          split: option.splits sum.splits list.splits prod.splits)
  then show ?thesis by blast
qed

text \<open>
  C5, as stated, fails for two of the four update handlers: \<^verbatim>\<open>upadteJobCategory\<close> and
  \<^verbatim>\<open>updateJobLevel\<close> set the title and nothing else. A category updated at time 10 is
  stored, and returned, with no \<^verbatim>\<open>updatedAt\<close> at all.
\<close>

theorem update_stamp_counterexample:
  "now sample_env = 10
   \<and> upadteJobCategory sample_schemas
        \<lparr>user = Some \<lparr>user_id = ''u1'', role = ''admin''\<rparr>, params = [(''id'', ''1'')],
           query = [], body = JStr ''Design''\<rparr> sample_env sample_db =
      (Responded
         \<lparr>status = 200,
            body_of = JObj [(''message'', JStr ''Job category updated successfully''),
                            (''category'', JObj [(''id'', JNum 1), (''title'', JStr ''Design'')])]\<rparr>,
       sample_db\<lparr>jobCategory_tbl := [[(''id'', JNum 1), (''title'', JStr ''Design'')]]\<rparr>)
   \<and> get [(''id'', JNum 1), (''title'', JStr ''Design'')] ''updatedAt'' = None"
  by code_simp

lemma updateJob_stamps:
  assumes "updateJob sc req e d = (Responded r, d')" and "status r = 200"
  shows "\<exists>jobId jobData u.
           map_of (params req) ''jobId'' = Some jobId
         \<and> JobSchema sc (body req) = Inr jobData
         \<and> d' = d\<lparr>job_tbl :=
                    map (\<lambda>x. if get x ''id'' = Some (JStr jobId)
                              then apply_set (jobData @ [(''updatedAt'', JDate (now e))]) x
                              else x) (job_tbl d)\<rparr>
         \<and> body_of r = JObj u \<and> u \<in> set (job_tbl d')
         \<and> get u ''updatedAt'' = Some (JDate (now e))"
proof -
  from updateJob_200[OF assms] obtain jobId jobData t' u us where
    p: "map_of (params req) ''jobId'' = Some jobId"
    and j: "JobSchema sc (body req) = Inr jobData"
    and w: "update_where (jobData @ [(''updatedAt'', JDate (now e))])
          (eq ''id'' (JStr jobId)) (job_tbl d) = (t', u # us)"
    and b: "body_of r = JObj u" and d': "d' = d\<lparr>job_tbl := t'\<rparr>"
    by blast
  from update_where_shape[OF w] obtain old where
    t': "t' = map (\<lambda>x. if get x ''id'' = Some (JStr jobId)
                       then apply_set (jobData @ [(''updatedAt'', JDate (now e))]) x
                       else x) (job_tbl d)"
    and u: "u = apply_set (jobData @ [(''updatedAt'', JDate (now e))]) old"
    and m: "u \<in> set t'"
    by blast
  from u have g: "get u ''updatedAt'' = Some (JDate (now e))"
    by (simp add: apply_set_append apply_set_Cons apply_set_Nil get_assign)
  from m d' have "u \<in> set (job_tbl d')" by simp
  with p j b g d' t' show ?thesis by blast
qed

lemma updateUserAsync_stamps:
  assumes "updateUserAsync e i fullName levelId categoryId tags d = (Inr (Some u), d')"
  shows "u \<in> set (user_tbl d') \<and> get u ''updatedAt'' = Some (JDate (now e))"
proof -
  from updateUserAsync_Some[OF assms] obtain s t' us where
    w: "update_where (s @ [(''updatedAt'', JDate (now e))])
          (eq ''id'' (JStr i)) (user_tbl d) = (t', u # us)"
    and d': "d' = d\<lparr>user_tbl := t'\<rparr>"
    by blast
  from update_where_shape[OF w] obtain old where
    "u = apply_set (s @ [(''updatedAt'', JDate (now e))]) old" and "u \<in> set t'"
    by blast
  then show ?thesis
    by (simp add: apply_set_append apply_set_Cons apply_set_Nil get_assign d')
qed

lemma upadteJobCategory_title_only:
  assumes "upadteJobCategory sc req e d = (Responded r, d')" and "status r = 200"
  shows "\<exists>n title old rest.
           parseInt_opt (map_of (params req) ''id'') = Some n
         \<and> JobCategorySchema sc (body req) = Inr title
         \<and> filter (\<lambda>x. get x ''id'' = Some (JNum n)) (jobCategory_tbl d) = old # rest
         \<and> body_of r = JObj [(''message'', JStr ''Job category updated successfully''),
                              (''category'', JObj (assign ''title'' (JStr title) old))]
         \<and> d' = d\<lparr>jobCategory_tbl :=
                    map (\<lambda>x. if get x ''id'' = Some (JNum n)
                              then assign ''title'' (JStr title) x else x) (jobCategory_tbl d)\<rparr>
         \<and> map (\<lambda>x. get x ''updatedAt'') (jobCategory_tbl d') =
           map (\<lambda>x. get x ''updatedAt'') (jobCategory_tbl d)"
proof -
  from upadteJobCategory_200[OF assms] obtain n title t' u us where
    p: "parseInt_opt (map_of (params req) ''id'') = Some n"
    and s: "JobCategorySchema sc (body req) = Inr title"
    and w: "update_where [(''title'', JStr title)] (eq ''id'' (JNum n)) (jobCategory_tbl d) =
              (t', u # us)"
    and b: "body_of r = JObj [(''message'', JStr ''Job category updated successfully''),
                              (''category'', JObj u)]"
    and d': "d' = d\<lparr>jobCategory_tbl := t'\<rparr>"
    by blast
  from update_where_shape[OF w] obtain old rest where
    t': "t' = map (\<lambda>x. if get x ''id'' = Some (JNum n)
                       then assign ''title'' (JStr title) x else x) (jobCategory_tbl d)"
    and f: "filter (\<lambda>x. get x ''id'' = Some (JNum n)) (jobCategory_tbl d) = old # rest"
    and u: "u = assign ''title'' (JStr title) old"
    by (auto simp: apply_set_Cons apply_set_Nil)
  have c: "map (\<lambda>x. get x ''updatedAt'') (jobCategory_tbl d') =
           map (\<lambda>x. get x ''updatedAt'') (jobCategory_tbl d)"
    unfolding d' t' by (simp add: get_assign)
  from p s f b u d' t' c show ?thesis by blast
qed

lemma updateJobLevel_title_only:
  assumes "updateJobLevel sc req e d = (Responded r, d')" and "status r = 200"
  shows "\<exists>n title old rest.
           parseInt_opt (map_of (params req) ''id'') = Some n
         \<and> JobCategorySchema sc (body req) = Inr title
         \<and> filter (\<lambda>x. get x ''id'' = Some (JNum n)) (jobLevel_tbl d) = old # rest
         \<and> body_of r = JObj [(''message'', JStr ''Job level updated successfully''),
                              (''level'', JObj (assign ''title'' (JStr title) old))]
         \<and> d' = d\<lparr>jobLevel_tbl :=
                    map (\<lambda>x. if get x ''id'' = Some (JNum n)
                              then assign ''title'' (JStr title) x else x) (jobLevel_tbl d)\<rparr>
         \<and> map (\<lambda>x. get x ''updatedAt'') (jobLevel_tbl d') =
           map (\<lambda>x. get x ''updatedAt'') (jobLevel_tbl d)"
proof -
  from updateJobLevel_200[OF assms] obtain n title t' u us where
    p: "parseInt_opt (map_of (params req) ''id'') = Some n"
    and s: "JobCategorySchema sc (body req) = Inr title"
    and w: "update_where [(''title'', JStr title)] (eq ''id'' (JNum n)) (jobLevel_tbl d) =
              (t', u # us)"
    and b: "body_of r = JObj [(''message'', JStr ''Job level updated successfully''),
                              (''level'', JObj u)]"
    and d': "d' = d\<lparr>jobLevel_tbl := t'\<rparr>"
    by blast
  from update_where_shape[OF w] obtain old rest where
    t': "t' = map (\<lambda>x. if get x ''id'' = Some (JNum n)
                       then assign ''title'' (JStr title) x else x) (jobLevel_tbl d)"
    and f: "filter (\<lambda>x. get x ''id'' = Some (JNum n)) (jobLevel_tbl d) = old # rest"
    and u: "u = assign ''title'' (JStr title) old"
    by (auto simp: apply_set_Cons apply_set_Nil)
  have c: "map (\<lambda>x. get x ''updatedAt'') (jobLevel_tbl d') =
           map (\<lambda>x. get x ''updatedAt'') (jobLevel_tbl d)"
    unfolding d' t' by (simp add: get_assign)
  from p s f b u d' t' c show ?thesis by blast
qed

text \<open>
  C5, amended. \<^verbatim>\<open>updateJob\<close> and the user update \<^verbatim>\<open>updateUserAsync\<close>, on a successful
  update, stamp the updated row's \<^verbatim>\<open>updatedAt\<close> with the current timestamp in the same
  write: the row returned is a stored row and carries the stamp. \<^verbatim>\<open>upadteJobCategory\<close>
  and \<^verbatim>\<open>updateJobLevel\<close>, on a successful update, write the title of the request and
  nothing else: the stored table is the old one with that title assigned to the rows of
  the requested id, the row returned is the first of them, and the \<^verbatim>\<open>updatedAt\<close> column
  of the table is what it was.
\<close>

theorem update_handlers_updatedAt:
  "(\<forall>r d'. updateJob sc req e d = (Responded r, d') \<and> status r = 200 \<longrightarrow>
      (\<exists>jobId jobData u.
           map_of (params req) ''jobId'' = Some jobId
         \<and> JobSchema sc (body req) = Inr jobData
         \<and> d' = d\<lparr>job_tbl :=
                    map (\<lambda>x. if get x ''id'' = Some (JStr jobId)
                              then apply_set (jobData @ [(''updatedAt'', JDate (now e))]) x
                              else x) (job_tbl d)\<rparr>
         \<and> body_of r = JObj u \<and> u \<in> set (job_tbl d')
         \<and> get u ''updatedAt'' = Some (JDate (now e))))
   \<and> (\<forall>u d'. updateUserAsync e i fullName levelId categoryId tags d = (Inr (Some u), d') \<longrightarrow>
         u \<in> set (user_tbl d') \<and> get u ''updatedAt'' = Some (JDate (now e)))
   \<and> (\<forall>r d'. upadteJobCategory sc req e d = (Responded r, d') \<and> status r = 200 \<longrightarrow>
         (\<exists>n title old rest.
           parseInt_opt (map_of (params req) ''id'') = Some n
         \<and> JobCategorySchema sc (body req) = Inr title
         \<and> filter (\<lambda>x. get x ''id'' = Some (JNum n)) (jobCategory_tbl d) = old # rest
         \<and> body_of r = JObj [(''message'', JStr ''Job category updated successfully''),
                              (''category'', JObj (assign ''title'' (JStr title) old))]
         \<and> d' = d\<lparr>jobCategory_tbl :=
                    map (\<lambda>x. if get x ''id'' = Some (JNum n)
                              then assign ''title'' (JStr title) x else x) (jobCategory_tbl d)\<rparr>
         \<and> map (\<lambda>x. get x ''updatedAt'') (jobCategory_tbl d') =
           map (\<lambda>x. get x ''updatedAt'') (jobCategory_tbl d)))
   \<and> (\<forall>r d'. updateJobLevel sc req e d = (Responded r, d') \<and> status r = 200 \<longrightarrow>
         (\<exists>n title old rest.
           parseInt_opt (map_of (params req) ''id'') = Some n
         \<and> JobCategorySchema sc (body req) = Inr title
         \<and> filter (\<lambda>x. get x ''id'' = Some (JNum n)) (jobLevel_tbl d) = old # rest
         \<and> body_of r = JObj [(''message'', JStr ''Job level updated successfully''),
                              (''level'', JObj (assign ''title'' (JStr title) old))]
         \<and> d' = d\<lparr>jobLevel_tbl :=
                    map (\<lambda>x. if get x ''id'' = Some (JNum n)
                              then assign ''title'' (JStr title) x else x) (jobLevel_tbl d)\<rparr>
         \<and> map (\<lambda>x. get x ''updatedAt'') (jobLevel_tbl d') =
           map (\<lambda>x. get x ''updatedAt'') (jobLevel_tbl d)))"
  using updateJob_stamps [of sc req e d] updateUserAsync_stamps [of e i fullName levelId categoryId tags d]
    upadteJobCategory_title_only [of sc req e d] updateJobLevel_title_only [of sc req e d]
  by blast

theorem update_handlers_updatedAt_witness:
  "updateJob sample_schemas
     \<lparr>user = Some \<lparr>user_id = ''u1'', role = ''admin''\<rparr>,
        params = [(''jobId'', ''123e4567-e89b-12d3-a456-426614174000'')], query = [],
        body = JObj [(''title'', JStr ''Developer'')]\<rparr> sample_env sample_db =
     (Responded
        \<lparr>status = 200,
           body_of = JObj [(''id'', JStr ''123e4567-e89b-12d3-a456-426614174000''),
                           (''title'', JStr ''Developer''), (''isApproved'', JBool False),
                           (''updatedAt'', JDate 10)]\<rparr>,
      sample_db\<lparr>job_tbl :=
        [[(''id'', JStr ''123e4567-e89b-12d3-a456-426614174000''),
          (''title'', JStr ''Developer''), (''isApproved'', JBool False),
          (''updatedAt'', JDate 10)],
         [(''id'', JStr ''j2''), (''title'', JStr ''Ops''), (''isApproved'', JBool True)]]\<rparr>)
   \<and> (\<exists>u. JObj [(''id'', JStr ''123e4567-e89b-12d3-a456-426614174000''),
                 (''title'', JStr ''Developer''), (''isApproved'', JBool False),
                 (''updatedAt'', JDate 10)] = JObj u
          \<and> get u ''updatedAt'' = Some (JDate (now sample_env)))
   \<and> updateUserAsync sample_env ''u1'' ''Ada'' 1 1 None sample_db =
     (Inr (Some [(''id'', JStr ''u1''), (''password'', JStr ''h''), (''fullName'', JStr ''Ada''),
                 (''levelId'', JNum 1), (''categoryId'', JNum 1), (''updatedAt'', JDate 10)]),
      sample_db\<lparr>user_tbl :=
        [[(''id'', JStr ''u1''), (''password'', JStr ''h''), (''fullName'', JStr ''Ada''),
          (''levelId'', JNum 1), (''categoryId'', JNum 1), (''updatedAt'', JDate 10)]]\<rparr>)
   \<and> get [(''id'', JStr ''u1''), (''password'', JStr ''h''), (''fullName'', JStr ''Ada''),
           (''levelId'', JNum 1), (''categoryId'', JNum 1), (''updatedAt'', JDate 10)]
        ''updatedAt'' = Some (JDate (now sample_env))
   \<and> upadteJobCategory sample_schemas
        \<lparr>user = None, params = [(''id'', ''1'')], query = [], body = JStr ''Design''\<rparr>
        sample_env sample_db =
     (Responded
        \<lparr>status = 200,
           body_of = JObj [(''message'', JStr ''Job category updated successfully''),
                           (''category'', JObj [(''id'', JNum 1), (''title'', JStr ''Design'')])]\<rparr>,
      sample_db\<lparr>jobCategory_tbl := [[(''id'', JNum 1), (''title'', JStr ''Design'')]]\<rparr>)
   \<and> updateJobLevel sample_schemas
        \<lparr>user = None, params = [(''id'', ''1'')], query = [], body = JStr ''Lead''\<rparr>
        sample_env sample_db =
     (Responded
        \<lparr>status = 200,
           body_of = JObj [(''message'', JStr ''Job level updated successfully''),
                           (''level'', JObj [(''id'', JNum 1), (''title'', JStr ''Lead'')])]\<rparr>,
      sample_db\<lparr>jobLevel_tbl := [[(''id'', JNum 1), (''title'', JStr ''Lead'')]]\<rparr>)
   \<and> map (\<lambda>x. get x ''updatedAt'') [[(''id'', JNum 1), (''title'', JStr ''Lead'')]] =
     map (\<lambda>x. get x ''updatedAt'') (jobLevel_tbl sample_db)"
proof -
  let ?reqJ = "\<lparr>user = Some \<lparr>user_id = ''u1'', role = ''admin''\<rparr>,
        params = [(''jobId'', ''123e4567-e89b-12d3-a456-426614174000'')], query = [],
        body = JObj [(''title'', JStr ''Developer'')]\<rparr>"
  let ?reqC = "\<lparr>user = None, params = [(''id'', ''1'')], query = [], body = JStr ''Design''\<rparr>"
  let ?reqL = "\<lparr>user = None, params = [(''id'', ''1'')], query = [], body = JStr ''Lead''\<rparr>"
  let ?rJ = "\<lparr>status = 200,
           body_of = JObj [(''id'', JStr ''123e4567-e89b-12d3-a456-426614174000''),
                           (''title'', JStr ''Developer''), (''isApproved'', JBool False),
                           (''updatedAt'', JDate 10)]\<rparr>"
  let ?rL = "\<lparr>status = 200,
           body_of = JObj [(''message'', JStr ''Job level updated successfully''),
                           (''level'', JObj [(''id'', JNum 1), (''title'', JStr ''Lead'')])]\<rparr>"
  have hJ: "updateJob sample_schemas ?reqJ sample_env sample_db =
     (Responded ?rJ,
      sample_db\<lparr>job_tbl :=
        [[(''id'', JStr ''123e4567-e89b-12d3-a456-426614174000''),
          (''title'', JStr ''Developer''), (''isApproved'', JBool False),
          (''updatedAt'', JDate 10)],
         [(''id'', JStr ''j2''), (''title'', JStr ''Ops''), (''isApproved'', JBool True)]]\<rparr>)"
    by code_simp
  have hU: "updateUserAsync sample_env ''u1'' ''Ada'' 1 1 None sample_db =
     (Inr (Some [(''id'', JStr ''u1''), (''password'', JStr ''h''), (''fullName'', JStr ''Ada''),
                 (''levelId'', JNum 1), (''categoryId'', JNum 1), (''updatedAt'', JDate 10)]),
      sample_db\<lparr>user_tbl :=
        [[(''id'', JStr ''u1''), (''password'', JStr ''h''), (''fullName'', JStr ''Ada''),
          (''levelId'', JNum 1), (''categoryId'', JNum 1), (''updatedAt'', JDate 10)]]\<rparr>)"
    by code_simp
  have hC: "upadteJobCategory sample_schemas ?reqC sample_env sample_db =
     (Responded
        \<lparr>status = 200,
           body_of = JObj [(''message'', JStr ''Job category updated successfully''),
                           (''category'', JObj [(''id'', JNum 1), (''title'', JStr ''Design'')])]\<rparr>,
      sample_db\<lparr>jobCategory_tbl := [[(''id'', JNum 1), (''title'', JStr ''Design'')]]\<rparr>)"
    by code_simp
  have hL: "updateJobLevel sample_schemas ?reqL sample_env sample_db =
     (Responded ?rL,
      sample_db\<lparr>jobLevel_tbl := [[(''id'', JNum 1), (''title'', JStr ''Lead'')]]\<rparr>)"
    by code_simp
  note t = update_handlers_updatedAt
  from t [of sample_schemas ?reqJ sample_env sample_db] hJ
  have cJ: "\<exists>u. body_of ?rJ = JObj u \<and> get u ''updatedAt'' = Some (JDate (now sample_env))"
    by fastforce
  from t [of sample_schemas ?reqL sample_env sample_db] hL
  have cL: "map (\<lambda>x. get x ''updatedAt'')
              (jobLevel_tbl (sample_db\<lparr>jobLevel_tbl := [[(''id'', JNum 1), (''title'', JStr ''Lead'')]]\<rparr>)) =
            map (\<lambda>x. get x ''updatedAt'') (jobLevel_tbl sample_db)"
    by fastforce
  from t [of sample_schemas ?reqJ sample_env sample_db "''u1''" "''Ada''" "1" "1" None] hU
  have cU: "get [(''id'', JStr ''u1''), (''password'', JStr ''h''), (''fullName'', JStr ''Ada''),
           (''levelId'', JNum 1), (''categoryId'', JNum 1), (''updatedAt'', JDate 10)]
        ''updatedAt'' = Some (JDate (now sample_env))"
    by fastforce
  from hJ hU hC hL cJ cL cU show ?thesis by simp
qed

section \<open>Storage errors\<close>


lemma getJobs_page_query_fails:
  assumes "fault e 1 = Some m"
  shows "getJobs req e d = (reply 500 (JObj [(''error'', JStr ''Internal server error'')]), d)"
  using assms by (simp add: getJobs_def run_def split: sum.split option.split)




end
